theory Spec2Isabelle
  imports Complex_Main "HOL-Library.Sublist"
begin

section \<open>Strings of the chat widget\<close>

text \<open>
  A message is a sequence of code units. The model covers the code units below 256, which
  are the values of \<^typ>\<open>char\<close>; the pattern of the widget is written in ASCII only.
\<close>

definition isWhiteSpace :: "char \<Rightarrow> bool" where
  \<comment> \<open>The class \<open>\s\<close> and the characters \<open>trim\<close> strips (WhiteSpace and LineTerminator):
     TAB, LF, VT, FF, CR, SPACE and NBSP are the ones below 256.\<close>
  "isWhiteSpace c = ((of_char c :: nat) \<in> {9, 10, 11, 12, 13, 32, 160})"

definition isLineTerminator :: "char \<Rightarrow> bool" where
  \<comment> \<open>LF and CR; \<open>.\<close> without the \<open>s\<close> flag matches every other character.\<close>
  "isLineTerminator c = ((of_char c :: nat) \<in> {10, 13})"

definition canonicalize :: "char \<Rightarrow> nat" where
  \<comment> \<open>Canonicalize of the \<open>i\<close> flag (no \<open>u\<close> flag): the upper-case form of the code unit, as a number.
     Only the ASCII letters are folded here: for a code unit from 128 on Canonicalize never
     returns a code unit below 128, so a comparison with an ASCII character of the pattern
     has the same outcome.\<close>
  "canonicalize c =
     (let n = (of_char c :: nat) in if 97 \<le> n \<and> n \<le> 122 then n - 32 else n)"

definition trim :: "string \<Rightarrow> string" where
  \<comment> \<open>\<open>String.prototype.trim\<close>\<close>
  "trim s = rev (dropWhile isWhiteSpace (rev (dropWhile isWhiteSpace s)))"

section \<open>Regular expressions with backtracking\<close>

text \<open>
  The constructs of the regular expression literal in \<open>handleSendMessage\<close>, and a matcher
  that returns every way of matching in the order in which the backtracking matcher of the
  language tries them: the head of the list is the match that is found.
\<close>

datatype regex =
    Empty                   \<comment> \<open>the empty pattern\<close>
  | Chr char                \<comment> \<open>a pattern character, compared after \<open>canonicalize\<close> (flag \<open>i\<close>)\<close>
  | WhiteSpaceClass         \<comment> \<open>\<open>\s\<close>\<close>
  | AnyChar                 \<comment> \<open>\<open>.\<close>\<close>
  | EndAnchor               \<comment> \<open>\<open>$\<close> without the \<open>m\<close> flag: the end of the input\<close>
  | Seq regex regex         \<comment> \<open>juxtaposition\<close>
  | Alt regex regex         \<comment> \<open>\<open>r|s\<close>\<close>
  | Opt regex               \<comment> \<open>\<open>r?\<close>, greedy\<close>
  | Star regex              \<comment> \<open>\<open>r*\<close>, greedy\<close>
  | StarLazy regex          \<comment> \<open>\<open>r*?\<close>\<close>
  | Plus regex              \<comment> \<open>\<open>r+\<close>, greedy\<close>
  | PlusLazy regex          \<comment> \<open>\<open>r+?\<close>\<close>
  | Group regex             \<comment> \<open>\<open>(r)\<close>, the capturing group (the pattern has one)\<close>

record mstate =
  rest :: string            \<comment> \<open>the input from the current position on\<close>
  capture :: "string option"  \<comment> \<open>what group 1 has captured\<close>

fun weight :: "regex \<Rightarrow> nat" where
  "weight Empty = 0"
| "weight (Chr c) = 0"
| "weight WhiteSpaceClass = 0"
| "weight AnyChar = 0"
| "weight EndAnchor = 0"
| "weight (Seq r s) = Suc (weight r + weight s)"
| "weight (Alt r s) = Suc (weight r + weight s)"
| "weight (Opt r) = Suc (weight r)"
| "weight (Star r) = Suc (weight r)"
| "weight (StarLazy r) = Suc (weight r)"
| "weight (Plus r) = Suc (Suc (weight r))"
| "weight (PlusLazy r) = Suc (Suc (weight r))"
| "weight (Group r) = Suc (weight r)"

definition advanced :: "mstate \<Rightarrow> mstate \<Rightarrow> bool" where
  \<comment> \<open>An iteration of a quantifier that may be skipped is kept only when it has moved the
     position: the language rejects an iteration whose end index is the start index, and
     the matcher only moves forward (lemma \<open>advanced_iff\<close>).\<close>
  "advanced x y = (length (rest y) < length (rest x))"

function matches :: "regex \<Rightarrow> mstate \<Rightarrow> mstate list" where
  "matches Empty x = [x]"
| "matches (Chr c) x =
     (case rest x of [] \<Rightarrow> []
      | a # as \<Rightarrow> if canonicalize a = canonicalize c then [x\<lparr>rest := as\<rparr>] else [])"
| "matches WhiteSpaceClass x =
     (case rest x of [] \<Rightarrow> [] | a # as \<Rightarrow> if isWhiteSpace a then [x\<lparr>rest := as\<rparr>] else [])"
| "matches AnyChar x =
     (case rest x of [] \<Rightarrow> [] | a # as \<Rightarrow> if isLineTerminator a then [] else [x\<lparr>rest := as\<rparr>])"
| "matches EndAnchor x = (if rest x = [] then [x] else [])"
| "matches (Seq r s) x = concat (map (matches s) (matches r x))"
| "matches (Alt r s) x = matches r x @ matches s x"
| "matches (Opt r) x = filter (advanced x) (matches r x) @ [x]"
| "matches (Star r) x =
     concat (map (matches (Star r)) (filter (advanced x) (matches r x))) @ [x]"
| "matches (StarLazy r) x =
     x # concat (map (matches (StarLazy r)) (filter (advanced x) (matches r x)))"
| "matches (Plus r) x = concat (map (matches (Star r)) (matches r x))"
| "matches (PlusLazy r) x = concat (map (matches (StarLazy r)) (matches r x))"
| "matches (Group r) x =
     map (\<lambda>y. y\<lparr>capture := Some (take (length (rest x) - length (rest y)) (rest x))\<rparr>)
       (matches r x)"
  by pat_completeness auto
termination
  by (relation "measures [\<lambda>(r, x). weight r, \<lambda>(r, x). length (rest x)]")
     (auto simp: advanced_def)

fun literal :: "string \<Rightarrow> regex" where
  \<comment> \<open>a run of pattern characters\<close>
  "literal [] = Empty"
| "literal [c] = Chr c"
| "literal (c # cs) = Seq (Chr c) (literal cs)"

record match_array =
  matched :: string               \<comment> \<open>element 0: the text the whole pattern matched\<close>
  group1 :: "string option"       \<comment> \<open>element 1: the capture, \<open>None\<close> for \<open>undefined\<close>\<close>

fun regexpExec :: "regex \<Rightarrow> string \<Rightarrow> match_array option" where
  \<comment> \<open>\<open>String.prototype.match\<close> with a pattern without the \<open>g\<close> flag: the pattern is
     tried at position 0, then 1, and so on up to the end of the input; the first position
     where it matches wins, with the first match found there. The argument is the input
     from the current position on.\<close>
  "regexpExec r [] =
     (case matches r \<lparr>rest = [], capture = None\<rparr> of
        [] \<Rightarrow> None
      | y # _ \<Rightarrow> Some \<lparr>matched = [], group1 = capture y\<rparr>)"
| "regexpExec r (c # cs) =
     (case matches r \<lparr>rest = c # cs, capture = None\<rparr> of
        [] \<Rightarrow> regexpExec r cs
      | y # _ \<Rightarrow>
          Some \<lparr>matched = take (length (c # cs) - length (rest y)) (c # cs),
                group1 = capture y\<rparr>)"

definition switchVerb :: regex where
  \<comment> \<open>\<open>(?:load|switch to|open)\<close>\<close>
  "switchVerb = Alt (literal ''load'') (Alt (literal ''switch to'') (literal ''open''))"

definition sessionSwitchPattern :: regex where
  \<comment> \<open>\<open>/(?:load|switch to|open)\s+(?:the\s+)?(.+?)(?:\s+session)?$/i\<close>\<close>
  "sessionSwitchPattern =
     Seq switchVerb
       (Seq (Plus WhiteSpaceClass)
         (Seq (Opt (Seq (literal ''the'') (Plus WhiteSpaceClass)))
           (Seq (Group (PlusLazy AnyChar))
             (Seq (Opt (Seq (Plus WhiteSpaceClass) (literal ''session'')))
               EndAnchor))))"

definition is_switch_verb :: "string \<Rightarrow> bool" where
  \<comment> \<open>a text that \<open>(?:load|switch to|open)\<close> matches under the \<open>i\<close> flag\<close>
  "is_switch_verb v =
     (map canonicalize v \<in>
        {map canonicalize ''load'', map canonicalize ''switch to'', map canonicalize ''open''})"

definition sessionSwitchMatch :: "string \<Rightarrow> match_array option" where
  \<comment> \<open>\<open>currentInput.match(/.../i)\<close>\<close>
  "sessionSwitchMatch currentInput = regexpExec sessionSwitchPattern currentInput"

definition cap_ok :: "mstate \<Rightarrow> mstate \<Rightarrow> bool" where
  \<comment> \<open>an invariant of the matcher: from \<open>x\<close> to \<open>y\<close> the capture is unchanged, or it is
     a piece of the input at \<open>x\<close>\<close>
  "cap_ok x y = (capture y = capture x \<or> (\<exists>g. capture y = Some g \<and> sublist g (rest x)))"

section \<open>The chat widget: one turn of \<open>handleSendMessage\<close>\<close>

datatype role = User | Assistant

record ChatMessage =
  msg_id :: nat               \<comment> \<open>\<open>id\<close>: the clock reading whose decimal text is the id\<close>
  role :: role
  content :: string
  timestamp :: nat

text \<open>
  The collaborators of the component. The callback \<open>onSessionSwitch\<close> is an optional
  property; when it is called it either returns or throws. The service
  \<open>aiService.sendChatMessage\<close> returns a promise, which resolves to the reply or rejects.
\<close>

datatype outcome = Returns | Throws

datatype 'a promise = Resolved 'a | Rejected

record ChatInterfaceProps =
  currentSessionId :: "string option"
  onSessionSwitch :: "(string \<Rightarrow> outcome) option"

record collaborators =
  user :: "string option"     \<comment> \<open>\<open>useAuth().user\<close>, by its id\<close>
  sendChatMessage :: "string \<Rightarrow> string \<Rightarrow> string option \<Rightarrow> string promise"
  now_submit :: nat           \<comment> \<open>\<open>Date.now()\<close> when the user's message is built\<close>
  now_reply :: nat            \<comment> \<open>\<open>Date.now()\<close> when the assistant's message is built\<close>

record chat_state =
  messages :: "ChatMessage list"
  inputMessage :: string
  isLoading :: bool

text \<open>What a turn does to the outside, in the order in which it happens.\<close>

datatype effect =
    CallOnSessionSwitch string
  | CallSendChatMessage string string "string option"
  | ToastError string
  | ConsoleError string

definition acknowledgement :: "string \<Rightarrow> string" where
  \<open>acknowledgement sessionName =
     ''I'll switch you to the "'' @ sessionName @ ''" session. Let me find that for you!''\<close>

definition toastText :: string where
  "toastText = ''Failed to get Sydney's response''"

definition caught :: "chat_state \<Rightarrow> effect list \<Rightarrow> chat_state \<times> effect list" where
  \<comment> \<open>the \<open>catch\<close> and \<open>finally\<close> blocks: a toast, a log line, and loading is over\<close>
  "caught st effs =
     (st\<lparr>isLoading := False\<rparr>, effs @ [ToastError toastText, ConsoleError ''Chat error:''])"

definition handleSendMessage ::
  "ChatInterfaceProps \<Rightarrow> collaborators \<Rightarrow> chat_state \<Rightarrow> chat_state \<times> effect list" where
  "handleSendMessage props co st =
     (case user co of
        None \<Rightarrow> (st, [])
      | Some uid \<Rightarrow>
          if trim (inputMessage st) = [] \<or> isLoading st then (st, [])
          else
            let userMessage = \<lparr>msg_id = now_submit co, role = User,
                               content = trim (inputMessage st), timestamp = now_submit co\<rparr>;
                currentInput = trim (inputMessage st);
                st1 = st\<lparr>messages := messages st @ [userMessage], inputMessage := [],
                         isLoading := True\<rparr>
            in
              (case (sessionSwitchMatch currentInput, onSessionSwitch props) of
                 (Some m, Some callback) \<Rightarrow>
                   (case group1 m of
                      None \<Rightarrow> caught st1 []
                    | Some g \<Rightarrow>
                        let sessionName = trim g in
                        (case callback sessionName of
                           Throws \<Rightarrow> caught st1 [CallOnSessionSwitch sessionName]
                         | Returns \<Rightarrow>
                             let assistantMessage =
                                   \<lparr>msg_id = now_reply co + 1, role = Assistant,
                                    content = acknowledgement sessionName,
                                    timestamp = now_reply co\<rparr>
                             in (st1\<lparr>messages := messages st1 @ [assistantMessage],
                                     isLoading := False\<rparr>,
                                 [CallOnSessionSwitch sessionName])))
               | _ \<Rightarrow>
                   (case sendChatMessage co currentInput uid (currentSessionId props) of
                      Rejected \<Rightarrow>
                        caught st1 [CallSendChatMessage currentInput uid (currentSessionId props)]
                    | Resolved aiResponse \<Rightarrow>
                        let assistantMessage =
                              \<lparr>msg_id = now_reply co + 1, role = Assistant,
                               content = aiResponse, timestamp = now_reply co\<rparr>
                        in (st1\<lparr>messages := messages st1 @ [assistantMessage],
                                isLoading := False\<rparr>,
                            [CallSendChatMessage currentInput uid (currentSessionId props)]))))"

definition clearChat :: "chat_state \<Rightarrow> chat_state" where
  "clearChat st = st\<lparr>messages := []\<rparr>"

text \<open>Which collaborator an effect reaches.\<close>

fun is_switch_call :: "effect \<Rightarrow> bool" where
  "is_switch_call (CallOnSessionSwitch n) = True"
| "is_switch_call e = False"

fun is_backend_call :: "effect \<Rightarrow> bool" where
  "is_backend_call (CallSendChatMessage m u s) = True"
| "is_backend_call e = False"

section \<open>Numbers\<close>

text \<open>
  The columns of a trade are decimal numbers, modelled as rationals (the rounding of the
  binary floating-point format is not modelled). A quotient is a number of the language:
  it can be \<open>NaN\<close> or infinite when the divisor is zero.
\<close>

datatype number = Finite rat | PosInfinity | NegInfinity | NaN

definition js_div :: "rat \<Rightarrow> rat \<Rightarrow> number" where
  \<comment> \<open>\<open>a / b\<close> for finite operands\<close>
  "js_div a b =
     (if b \<noteq> 0 then Finite (a / b)
      else if a = 0 then NaN
      else if 0 < a then PosInfinity else NegInfinity)"

fun js_times :: "number \<Rightarrow> rat \<Rightarrow> number" where
  \<comment> \<open>\<open>x * b\<close> for a finite right operand\<close>
  "js_times (Finite a) b = Finite (a * b)"
| "js_times NaN b = NaN"
| "js_times PosInfinity b = (if b = 0 then NaN else if 0 < b then PosInfinity else NegInfinity)"
| "js_times NegInfinity b = (if b = 0 then NaN else if 0 < b then NegInfinity else PosInfinity)"

section \<open>Trades, sessions and the store\<close>

datatype entry_side = Long | Short

record Trade =
  trade_id :: string          \<comment> \<open>\<open>id\<close>\<close>
  session_id :: string
  margin :: rat
  roi :: rat
  entry_side :: entry_side
  profit_loss :: rat
  comments :: "string option"
  created_at :: int           \<comment> \<open>the instant; the store orders rows by it\<close>

record TradingSession =
  ts_id :: string             \<comment> \<open>\<open>id\<close>\<close>
  user_id :: string
  name :: string
  initial_capital :: rat
  current_capital :: rat
  ts_created_at :: int        \<comment> \<open>\<open>created_at\<close>\<close>
  updated_at :: int

text \<open>
  A row of the chat endpoint's trades query carries the embedded resource
  \<open>trading_sessions!inner(name, user_id)\<close> of the session the trade belongs to.
\<close>

record TradeRow = Trade +
  trading_sessions :: "string \<times> string"   \<comment> \<open>\<open>name\<close> and \<open>user_id\<close> of the session\<close>

record store =
  trading_sessions_table :: "TradingSession list"
  trades_table :: "Trade list"

text \<open>The answer of the store's client to a query: \<open>{ data, error }\<close>.\<close>

record 'a answer =
  data :: "'a option"
  error :: "string option"

record store_client =
  tables :: store
  sessionsFailure :: "string option"   \<comment> \<open>the error of a query on \<open>trading_sessions\<close>, if it fails\<close>
  tradesFailure :: "string option"     \<comment> \<open>the error of a query on \<open>trades\<close>, if it fails\<close>

definition order_desc :: "('a \<Rightarrow> int) \<Rightarrow> 'a list \<Rightarrow> 'a list" where
  \<comment> \<open>\<open>.order('created_at', { ascending: false })\<close>; rows with equal keys keep the order
     of the table (the store promises no order among them)\<close>
  "order_desc key rows = sort_key (\<lambda>r. - key r) rows"

definition select_sessions_of_user :: "store_client \<Rightarrow> string \<Rightarrow> TradingSession list answer" where
  \<comment> \<open>\<open>from('trading_sessions').select('*').eq('user_id', userId).order('created_at', desc)\<close>\<close>
  "select_sessions_of_user client userId =
     (case sessionsFailure client of
        Some e \<Rightarrow> \<lparr>data = None, error = Some e\<rparr>
      | None \<Rightarrow>
          \<lparr>data = Some (order_desc ts_created_at
                   (filter (\<lambda>s. user_id s = userId) (trading_sessions_table (tables client)))),
           error = None\<rparr>)"

definition join_session :: "TradingSession list \<Rightarrow> string \<Rightarrow> Trade \<Rightarrow> TradeRow option" where
  \<comment> \<open>the inner join of a trade with its session (the row with the trade's \<open>session_id\<close>
     as its key), kept when the session is the user's\<close>
  "join_session sessions userId t =
     (case find (\<lambda>s. ts_id s = session_id t) sessions of
        None \<Rightarrow> None
      | Some s \<Rightarrow>
          if user_id s = userId
          then Some (Trade.extend t (TradeRow.fields (name s, user_id s)))
          else None)"

definition select_trades_of_user :: "store_client \<Rightarrow> string \<Rightarrow> TradeRow list answer" where
  \<comment> \<open>\<open>from('trades').select('*, trading_sessions!inner(name, user_id)')
     .eq('trading_sessions.user_id', userId).order('created_at', desc)\<close>\<close>
  "select_trades_of_user client userId =
     (case tradesFailure client of
        Some e \<Rightarrow> \<lparr>data = None, error = Some e\<rparr>
      | None \<Rightarrow>
          \<lparr>data = Some (order_desc created_at
                   (List.map_filter
                      (join_session (trading_sessions_table (tables client)) userId)
                      (trades_table (tables client)))),
           error = None\<rparr>)"

definition select_single_session ::
  "store_client \<Rightarrow> string \<Rightarrow> string \<Rightarrow> TradingSession answer" where
  \<comment> \<open>\<open>from('trading_sessions').select('*').eq('id', sessionId).eq('user_id', userId).single()\<close>:
     an error unless exactly one row is found; the handler does not read the error's text\<close>
  "select_single_session client sessionId userId =
     (case sessionsFailure client of
        Some e \<Rightarrow> \<lparr>data = None, error = Some e\<rparr>
      | None \<Rightarrow>
          (case filter (\<lambda>s. ts_id s = sessionId \<and> user_id s = userId)
                  (trading_sessions_table (tables client)) of
             [s] \<Rightarrow> \<lparr>data = Some s, error = None\<rparr>
           | _ \<Rightarrow> \<lparr>data = None, error = Some ''JSON object requested, multiple (or no) rows returned''\<rparr>))"

definition select_trades_of_session :: "store_client \<Rightarrow> string \<Rightarrow> Trade list answer" where
  \<comment> \<open>\<open>from('trades').select('*').eq('session_id', sessionId).order('created_at', desc)\<close>\<close>
  "select_trades_of_session client sessionId =
     (case tradesFailure client of
        Some e \<Rightarrow> \<lparr>data = None, error = Some e\<rparr>
      | None \<Rightarrow>
          \<lparr>data = Some (order_desc created_at
                   (filter (\<lambda>t. session_id t = sessionId) (trades_table (tables client)))),
           error = None\<rparr>)"

section \<open>Statistics\<close>

text \<open>
  Both endpoints compute their statistics with the same expressions over \<open>trades\<close>, the
  data of the trades query, which is an array or \<open>null\<close>. \<open>trades?.f || 0\<close> is \<open>0\<close> for
  \<open>null\<close> and for a falsy value of \<open>f\<close>.
\<close>

definition totalTrades :: "('a Trade_scheme) list option \<Rightarrow> nat" where
  \<comment> \<open>\<open>trades?.length || 0\<close>\<close>
  "totalTrades trades = (case trades of None \<Rightarrow> 0 | Some ts \<Rightarrow> length ts)"

definition totalProfit :: "('a Trade_scheme) list option \<Rightarrow> rat" where
  \<comment> \<open>\<open>trades?.reduce((sum, trade) => sum + trade.profit_loss, 0) || 0\<close>\<close>
  "totalProfit trades =
     (case trades of
        None \<Rightarrow> 0
      | Some ts \<Rightarrow>
          let total = foldl (\<lambda>sum trade. sum + profit_loss trade) 0 ts
          in if total = 0 then 0 else total)"

definition winningTrades :: "('a Trade_scheme) list option \<Rightarrow> nat" where
  \<comment> \<open>\<open>trades?.filter(trade => trade.profit_loss > 0).length || 0\<close>\<close>
  "winningTrades trades =
     (case trades of None \<Rightarrow> 0 | Some ts \<Rightarrow> length (filter (\<lambda>trade. 0 < profit_loss trade) ts))"

definition losingTrades :: "('a Trade_scheme) list option \<Rightarrow> nat" where
  \<comment> \<open>\<open>trades?.filter(trade => trade.profit_loss < 0).length || 0\<close>\<close>
  "losingTrades trades =
     (case trades of None \<Rightarrow> 0 | Some ts \<Rightarrow> length (filter (\<lambda>trade. profit_loss trade < 0) ts))"

definition winRate :: "('a Trade_scheme) list option \<Rightarrow> number" where
  \<comment> \<open>\<open>totalTrades ? (winningTrades / totalTrades) * 100 : 0\<close>, in the chat endpoint with
     \<open>trades?.length\<close> and \<open>trades.length\<close> for \<open>totalTrades\<close>\<close>
  "winRate trades =
     (if totalTrades trades \<noteq> 0
      then js_times (js_div (of_nat (winningTrades trades)) (of_nat (totalTrades trades))) 100
      else Finite 0)"

definition totalMargin :: "('a Trade_scheme) list option \<Rightarrow> rat" where
  \<comment> \<open>\<open>trades?.reduce((sum, trade) => sum + trade.margin, 0) || 0\<close>\<close>
  "totalMargin trades =
     (case trades of
        None \<Rightarrow> 0
      | Some ts \<Rightarrow>
          let total = foldl (\<lambda>sum trade. sum + margin trade) 0 ts
          in if total = 0 then 0 else total)"

definition avgROI :: "('a Trade_scheme) list option \<Rightarrow> number" where
  \<comment> \<open>\<open>totalTrades ? trades.reduce((sum, trade) => sum + trade.roi, 0) / totalTrades : 0\<close>\<close>
  "avgROI trades =
     (if totalTrades trades \<noteq> 0
      then js_div (foldl (\<lambda>sum trade. sum + roi trade) 0 (case trades of None \<Rightarrow> [] | Some ts \<Rightarrow> ts))
             (of_nat (totalTrades trades))
      else Finite 0)"

section \<open>Prompts and the completion backend\<close>

text \<open>
  A template literal is the list of its parts: the literal text and the interpolated
  values, each with the conversion the source applies to it.
\<close>

datatype json =
    JUndefined                        \<comment> \<open>\<open>JSON.stringify(undefined)\<close>\<close>
  | JNull
  | JSessions "TradingSession list"
  | JTradeRows "TradeRow list"
  | JTrades "Trade list"

datatype fragment =
    Lit string                        \<comment> \<open>literal text of the template\<close>
  | Str string                        \<comment> \<open>an interpolated string\<close>
  | NatText nat                       \<comment> \<open>an interpolated count\<close>
  | NumText rat                       \<comment> \<open>an interpolated number\<close>
  | Fixed number nat                  \<comment> \<open>\<open>x.toFixed(d)\<close>\<close>
  | Json json                         \<comment> \<open>\<open>JSON.stringify(v, null, 2)\<close>\<close>
  | LocaleDate int                    \<comment> \<open>\<open>toLocaleDateString()\<close> of an instant\<close>

type_synonym template = "fragment list"

datatype chat_role = System | UserRole

record completion_request =
  authorization :: string             \<comment> \<open>the bearer credential\<close>
  model :: string
  request_messages :: "(chat_role \<times> template) list"
  max_tokens :: nat
  temperature :: rat

record completion_response =
  ok :: bool
  http_status :: nat
  errorText :: string
  choice :: "string option"           \<comment> \<open>\<open>choices[0]?.message?.content\<close>\<close>
  usage :: string

datatype fetched = NetworkFailure string | Answered completion_response

record http_request =
  http_method :: string

record http_response =
  status :: nat
  error_field :: "string option"      \<comment> \<open>\<open>error\<close> of the body\<close>
  details_field :: "template option"      \<comment> \<open>\<open>details\<close> of the body\<close>
  message_field :: "string option"    \<comment> \<open>\<open>message\<close> (chat) or \<open>summary\<close> of the body\<close>
  usage_field :: "string option"

record outcome_of_request =
  response :: http_response
  sent :: "completion_request list"   \<comment> \<open>the requests made to the completion backend\<close>

record environment =
  supabaseClient :: store_client
  OPENAI_API_KEY :: "string option"   \<comment> \<open>\<open>Deno.env.get('OPENAI_API_KEY')\<close>\<close>
  fetch :: "completion_request \<Rightarrow> fetched"
  clock :: int                        \<comment> \<open>the instant \<open>new Date()\<close> reads\<close>

definition preflight :: outcome_of_request where
  \<comment> \<open>\<open>new Response(null, { headers: corsHeaders })\<close>\<close>
  "preflight =
     \<lparr>response = \<lparr>status = 200, error_field = None, details_field = None,
                   message_field = None, usage_field = None\<rparr>,
      sent = []\<rparr>"

definition failure :: "string \<Rightarrow> template \<Rightarrow> completion_request list \<Rightarrow> outcome_of_request" where
  \<comment> \<open>the \<open>catch\<close> block: status 500 with \<open>{ error, details: error.message }\<close>\<close>
  "failure err msg reqs =
     \<lparr>response = \<lparr>status = 500, error_field = Some err, details_field = Some msg,
                   message_field = None, usage_field = None\<rparr>,
      sent = reqs\<rparr>"

definition success :: "string \<Rightarrow> string \<Rightarrow> completion_request list \<Rightarrow> outcome_of_request" where
  "success msg use reqs =
     \<lparr>response = \<lparr>status = 200, error_field = None, details_field = None,
                   message_field = Some msg, usage_field = Some use\<rparr>,
      sent = reqs\<rparr>"

definition completion ::
  "environment \<Rightarrow> string \<Rightarrow> completion_request \<Rightarrow> string \<Rightarrow> outcome_of_request" where
  \<comment> \<open>from \<open>fetch\<close> to the response, the same statements in both endpoints; \<open>err\<close> is the
     endpoint's \<open>error\<close> text and \<open>fallback\<close> its text for an empty completion. The body
     of an answer with \<open>ok\<close> is taken to be JSON with an array \<open>choices\<close>.\<close>
  "completion env err request fallback =
     (case fetch env request of
        NetworkFailure msg \<Rightarrow> failure err [Lit msg] [request]
      | Answered openAIResponse \<Rightarrow>
          if \<not> ok openAIResponse
          then failure err [Lit ''OpenAI API request failed: '', NatText (http_status openAIResponse)]
                 [request]
          else
            success
              (case choice openAIResponse of
                 None \<Rightarrow> fallback
               | Some c \<Rightarrow> if c = [] then fallback else c)
              (usage openAIResponse) [request])"

section \<open>The chat endpoint\<close>

record ChatRequest =
  message :: string
  sessionId :: "string option"
  userId :: string

record chat_http_request = http_request +
  json_body :: ChatRequest            \<comment> \<open>\<open>await req.json()\<close>, for a body that parses\<close>

record tradingContext =
  ctx_sessions :: "TradingSession list"
  ctx_trades :: "TradeRow list"
  ctx_totalSessions :: nat
  ctx_totalTrades :: nat
  currentDate :: int

definition chat_tradingContext ::
  "TradingSession list option \<Rightarrow> TradeRow list option \<Rightarrow> int \<Rightarrow> tradingContext" where
  "chat_tradingContext sessions trades now =
     \<lparr>ctx_sessions = (case sessions of None \<Rightarrow> [] | Some ss \<Rightarrow> ss),
      ctx_trades = (case trades of None \<Rightarrow> [] | Some ts \<Rightarrow> ts),
      ctx_totalSessions = (case sessions of None \<Rightarrow> 0 | Some ss \<Rightarrow> length ss),
      ctx_totalTrades = (case trades of None \<Rightarrow> 0 | Some ts \<Rightarrow> length ts),
      currentDate = now\<rparr>"

definition chat_systemPrompt ::
  "TradingSession list option \<Rightarrow> TradeRow list option \<Rightarrow> int \<Rightarrow> template" where
  \<open>chat_systemPrompt sessions trades now =
     (let tradingContext = chat_tradingContext sessions trades now in
     [Lit (''You are Sydney, an AI trading assistant for Laxmi Chit Fund's trading analytics platform. You are friendly, helpful, and have a warm personality.\<newline>'' @
           ''\<newline>'' @
           ''User's Trading Data Summary:\<newline>'' @
           ''- Total Sessions: ''),
      NatText (ctx_totalSessions tradingContext),
      Lit (''\<newline>'' @
           ''- Total Trades: ''),
      NatText (ctx_totalTrades tradingContext),
      Lit (''\<newline>'' @
           ''- Total P/L: $''),
      Fixed (Finite (totalProfit trades)) 2,
      Lit (''\<newline>'' @
           ''- Win Rate: ''),
      Fixed (winRate trades) 1,
      Lit (''%\<newline>'' @
           ''- Winning Trades: ''),
      NatText (winningTrades trades),
      Lit (''\<newline>'' @
           ''- Losing Trades: ''),
      NatText (losingTrades trades),
      Lit (''\<newline>'' @
           ''\<newline>'' @
           ''Recent Sessions: ''),
      Json (case sessions of None \<Rightarrow> JUndefined | Some ss \<Rightarrow> JSessions (take 5 ss)),
      Lit (''\<newline>'' @
           ''Recent Trades: ''),
      Json (case trades of None \<Rightarrow> JUndefined | Some ts \<Rightarrow> JTradeRows (take 10 ts)),
      Lit (''\<newline>'' @
           ''\<newline>'' @
           ''You can:\<newline>'' @
           ''1. Analyze their trading performance and provide insights\<newline>'' @
           ''2. Answer questions about specific trades or sessions\<newline>'' @
           ''3. Offer psychological feedback on trading patterns\<newline>'' @
           ''4. Chat freely like ChatGPT (jokes, general questions, etc.)\<newline>'' @
           ''5. Detect risky behavior (overtrading, revenge trading)\<newline>'' @
           ''6. Infer user mindset from trade comments\<newline>'' @
           ''7. Give personalized tips and recommendations\<newline>'' @
           ''8. Answer questions about gold prices, market trends, etc.\<newline>'' @
           ''\<newline>'' @
           ''Be conversational, supportive, and provide actionable advice. Use specific data from their trading history when relevant. If they ask non-trading questions, feel free to chat normally.\<newline>'' @
           ''\<newline>'' @
           ''Current date: ''),
      LocaleDate now])\<close>

definition chat_request :: "string \<Rightarrow> template \<Rightarrow> string \<Rightarrow> completion_request" where
  "chat_request openAIApiKey systemPrompt msg =
     \<lparr>authorization = ''Bearer '' @ openAIApiKey,
      model = ''gpt-4o-mini'',
      request_messages = [(System, systemPrompt), (UserRole, [Str msg])],
      max_tokens = 1000,
      temperature = 7 / 10\<rparr>"

definition chat_error :: string where
  "chat_error = ''Failed to process chat request''"

definition chat_handler :: "environment \<Rightarrow> chat_http_request \<Rightarrow> outcome_of_request" where
  \<comment> \<open>\<open>msg\<close>, \<open>sid\<close> and \<open>uid\<close> are the \<open>message\<close>, \<open>sessionId\<close> and \<open>userId\<close> that the
     handler takes out of the body\<close>
  "chat_handler env req =
     (if http_method req = ''OPTIONS'' then preflight
      else
        let msg = message (json_body req);
            sid = sessionId (json_body req);
            uid = userId (json_body req);
            sessions_answer = select_sessions_of_user (supabaseClient env) uid
        in
          if error sessions_answer \<noteq> None
          then failure chat_error [Lit ''Failed to fetch sessions''] []
          else
            let trades_answer = select_trades_of_user (supabaseClient env) uid in
              if error trades_answer \<noteq> None
              then failure chat_error [Lit ''Failed to fetch trades''] []
              else
                let systemPrompt =
                      chat_systemPrompt (data sessions_answer) (data trades_answer) (clock env)
                in
                  (case OPENAI_API_KEY env of
                     None \<Rightarrow> failure chat_error [Lit ''OpenAI API key not configured''] []
                   | Some openAIApiKey \<Rightarrow>
                       if openAIApiKey = []
                       then failure chat_error [Lit ''OpenAI API key not configured''] []
                       else
                         completion env chat_error
                           (chat_request openAIApiKey systemPrompt msg)
                           ''Sorry, I could not process your request.''))"

section \<open>The summary endpoint\<close>

record SummaryRequest =
  summary_sessionId :: string         \<comment> \<open>\<open>sessionId\<close>\<close>
  summary_userId :: string            \<comment> \<open>\<open>userId\<close>\<close>

record summary_http_request = http_request +
  summary_body :: SummaryRequest      \<comment> \<open>\<open>await req.json()\<close>, for a body that parses\<close>

definition summary_systemPrompt :: "TradingSession \<Rightarrow> Trade list option \<Rightarrow> template" where
  \<open>summary_systemPrompt session trades =
     [Lit (''You are Sydney, an AI trading analyst. Generate a comprehensive and personalized summary for this trading session.\<newline>'' @
           ''\<newline>'' @
           ''Session Details:\<newline>'' @
           ''- Name: ''),
      Str (name session),
      Lit (''\<newline>'' @
           ''- Initial Capital: $''),
      NumText (initial_capital session),
      Lit (''\<newline>'' @
           ''- Current Capital: $''),
      NumText (current_capital session),
      Lit (''\<newline>'' @
           ''- Created: ''),
      LocaleDate (ts_created_at session),
      Lit (''\<newline>'' @
           ''\<newline>'' @
           ''Trading Performance:\<newline>'' @
           ''- Total Trades: ''),
      NatText (totalTrades trades),
      Lit (''\<newline>'' @
           ''- Net P/L: $''),
      Fixed (Finite (totalProfit trades)) 2,
      Lit (''\<newline>'' @
           ''- Win Rate: ''),
      Fixed (winRate trades) 1,
      Lit (''%\<newline>'' @
           ''- Winning Trades: ''),
      NatText (winningTrades trades),
      Lit (''\<newline>'' @
           ''- Losing Trades: ''),
      NatText (losingTrades trades),
      Lit (''\<newline>'' @
           ''- Total Margin Used: $''),
      Fixed (Finite (totalMargin trades)) 2,
      Lit (''\<newline>'' @
           ''- Average ROI: ''),
      Fixed (avgROI trades) 2,
      Lit (''%\<newline>'' @
           ''\<newline>'' @
           ''Individual Trades:\<newline>''),
      Json (case trades of None \<Rightarrow> JNull | Some ts \<Rightarrow> JTrades ts),
      Lit (''\<newline>'' @
           ''\<newline>'' @
           ''Please provide a warm, personalized summary that includes:\<newline>'' @
           ''\<newline>'' @
           ''1. **Performance Overview**: A friendly summary of how the session went\<newline>'' @
           ''2. **Key Insights**: Notable patterns, strengths, and areas for improvement\<newline>'' @
           ''3. **Psychological Analysis**: Observations about trading behavior and mindset based on trade patterns and comments\<newline>'' @
           ''4. **Risk Assessment**: Any concerning patterns like overtrading or revenge trading\<newline>'' @
           ''5. **Personalized Recommendations**: Specific, actionable advice for future sessions\<newline>'' @
           ''\<newline>'' @
           ''Write in a conversational, supportive tone as Sydney. Keep it under 500 words but make it comprehensive and valuable.'')]\<close>

definition summary_request :: "string \<Rightarrow> template \<Rightarrow> completion_request" where
  "summary_request openAIApiKey systemPrompt =
     \<lparr>authorization = ''Bearer '' @ openAIApiKey,
      model = ''gpt-4o-mini'',
      request_messages = [(System, systemPrompt)],
      max_tokens = 800,
      temperature = 7 / 10\<rparr>"

definition summary_error :: string where
  "summary_error = ''Failed to generate session summary''"

definition summary_handler :: "environment \<Rightarrow> summary_http_request \<Rightarrow> outcome_of_request" where
  \<comment> \<open>\<open>sid\<close> and \<open>uid\<close> are the \<open>sessionId\<close> and \<open>userId\<close> of the body\<close>
  "summary_handler env req =
     (if http_method req = ''OPTIONS'' then preflight
      else
        let sid = summary_sessionId (summary_body req);
            uid = summary_userId (summary_body req);
            session_answer = select_single_session (supabaseClient env) sid uid
        in
          (case (error session_answer, data session_answer) of
             (None, Some session) \<Rightarrow>
               let trades_answer = select_trades_of_session (supabaseClient env) sid in
                 if error trades_answer \<noteq> None
                 then failure summary_error [Lit ''Failed to fetch trades''] []
                 else
                   let systemPrompt = summary_systemPrompt session (data trades_answer) in
                     (case OPENAI_API_KEY env of
                        None \<Rightarrow> failure summary_error [Lit ''OpenAI API key not configured''] []
                      | Some openAIApiKey \<Rightarrow>
                          if openAIApiKey = []
                          then failure summary_error [Lit ''OpenAI API key not configured''] []
                          else
                            completion env summary_error
                              (summary_request openAIApiKey systemPrompt)
                              ''Unable to generate summary.'')
           | _ \<Rightarrow> failure summary_error [Lit ''Session not found''] []))"

section \<open>Reading a prompt, and sample data\<close>

fun is_literal :: "fragment \<Rightarrow> bool" where
  "is_literal (Lit s) = True"
| "is_literal f = False"

definition interpolated :: "template \<Rightarrow> fragment list" where
  \<comment> \<open>the interpolated values of a template, in their order\<close>
  "interpolated t = filter (\<lambda>f. \<not> is_literal f) t"

definition sample_trade :: "string \<Rightarrow> string \<Rightarrow> rat \<Rightarrow> int \<Rightarrow> Trade" where
  "sample_trade i s pl t =
     \<lparr>trade_id = i, session_id = s, margin = 10, roi = 5, entry_side = Long,
      profit_loss = pl, comments = None, created_at = t\<rparr>"

definition sample_session :: "string \<Rightarrow> string \<Rightarrow> int \<Rightarrow> TradingSession" where
  "sample_session i u t =
     \<lparr>ts_id = i, user_id = u, name = ''BTC 5 Minute'', initial_capital = 1000,
      current_capital = 1050, ts_created_at = t, updated_at = t\<rparr>"

definition three_trades :: "Trade list" where
  \<comment> \<open>profits and losses 100, -50 and 0\<close>
  "three_trades =
     [sample_trade ''t1'' ''s1'' 100 3, sample_trade ''t2'' ''s1'' (- 50) 2,
      sample_trade ''t3'' ''s1'' 0 1]"

definition sample_store :: store where
  \<comment> \<open>six sessions and eleven trades of user \<open>u1\<close>, one session and one trade of \<open>u2\<close>\<close>
  "sample_store =
     \<lparr>trading_sessions_table =
        [sample_session ''s1'' ''u1'' 1, sample_session ''s2'' ''u1'' 2,
         sample_session ''s3'' ''u1'' 3, sample_session ''x1'' ''u2'' 7,
         sample_session ''s4'' ''u1'' 4, sample_session ''s5'' ''u1'' 5,
         sample_session ''s6'' ''u1'' 6],
      trades_table =
        [sample_trade ''t01'' ''s1'' 100 1, sample_trade ''t02'' ''s1'' (- 50) 2,
         sample_trade ''t03'' ''s2'' 0 3, sample_trade ''t04'' ''s2'' 20 4,
         sample_trade ''y01'' ''x1'' 500 12, sample_trade ''t05'' ''s3'' (- 10) 5,
         sample_trade ''t06'' ''s3'' 30 6, sample_trade ''t07'' ''s4'' 5 7,
         sample_trade ''t08'' ''s4'' (- 5) 8, sample_trade ''t09'' ''s5'' 40 9,
         sample_trade ''t10'' ''s6'' (- 20) 10, sample_trade ''t11'' ''s6'' 15 11]\<rparr>"

definition sample_answer :: completion_response where
  "sample_answer =
     \<lparr>ok = True, http_status = 200, errorText = [], choice = Some ''Hello'', usage = ''{}''\<rparr>"

definition sample_environment :: "string option \<Rightarrow> environment" where
  \<comment> \<open>a store that answers, a backend that answers, and the given credential\<close>
  "sample_environment key =
     \<lparr>supabaseClient = \<lparr>tables = sample_store, sessionsFailure = None, tradesFailure = None\<rparr>,
      OPENAI_API_KEY = key,
      fetch = (\<lambda>r. Answered sample_answer),
      clock = 100\<rparr>"

definition sample_chat_request :: "string option \<Rightarrow> chat_http_request" where
  "sample_chat_request sid =
     \<lparr>http_method = ''POST'',
      json_body = \<lparr>message = ''How am I doing?'', sessionId = sid, userId = ''u1''\<rparr>\<rparr>"

definition sample_summary_request :: summary_http_request where
  "sample_summary_request =
     \<lparr>http_method = ''POST'',
      summary_body = \<lparr>summary_sessionId = ''s1'', summary_userId = ''u1''\<rparr>\<rparr>"

definition sample_props :: "(string \<Rightarrow> outcome) option \<Rightarrow> ChatInterfaceProps" where
  "sample_props callback = \<lparr>currentSessionId = Some ''s1'', onSessionSwitch = callback\<rparr>"

definition sample_collaborators :: collaborators where
  "sample_collaborators =
     \<lparr>user = Some ''u1'', sendChatMessage = (\<lambda>m u s. Resolved ''Hello''),
      now_submit = 1000, now_reply = 2000\<rparr>"

definition typed :: "string \<Rightarrow> chat_state" where
  \<comment> \<open>an idle widget with an empty transcript and the given text in the input field\<close>
  "typed input = \<lparr>messages = [], inputMessage = input, isLoading = False\<rparr>"

definition owned_by :: "TradingSession list \<Rightarrow> string \<Rightarrow> Trade \<Rightarrow> bool" where
  \<comment> \<open>the session of the trade is a session of the user\<close>
  "owned_by sessions uid t =
     (case find (\<lambda>s. ts_id s = session_id t) sessions of
        None \<Rightarrow> False
      | Some s \<Rightarrow> user_id s = uid)"

definition store_fails :: "environment \<Rightarrow> environment" where
  \<comment> \<open>the same environment with a store whose queries on \<open>trades\<close> fail\<close>
  "store_fails env =
     env\<lparr>supabaseClient := (supabaseClient env)\<lparr>tradesFailure := Some ''connection refused''\<rparr>\<rparr>"

definition session_tail :: regex where
  \<comment> \<open>the end of the pattern: \<open>(?:\s+session)?$\<close>\<close>
  "session_tail = Seq (Opt (Seq (Plus WhiteSpaceClass) (literal ''session''))) EndAnchor"

definition set_capture :: "string \<Rightarrow> mstate \<Rightarrow> mstate" where
  \<comment> \<open>what the capturing group does to a state reached from the input \<open>r0\<close>\<close>
  "set_capture r0 y = y\<lparr>capture := Some (take (length r0 - length (rest y)) r0)\<rparr>"

section \<open>Properties of the matcher\<close>

text \<open>
  The equations of the two starred quantifiers call the matcher on the same pattern, so
  they are unfolded by hand. The matcher only moves forward, it never forgets a capture,
  and a capture is always a piece of the input.
\<close>

lemmas matches_Star = matches.simps(9)
lemmas matches_StarLazy = matches.simps(10)

declare matches_Star [simp del]
declare matches_StarLazy [simp del]

lemmas match_eval = sessionSwitchMatch_def sessionSwitchPattern_def switchVerb_def
  canonicalize_def isWhiteSpace_def isLineTerminator_def advanced_def matches_Star
  matches_StarLazy


lemma suffix_of_tail: "a # as = s \<Longrightarrow> suffix as s"
  by (auto simp: suffix_Cons)

lemma suffix_chain: "suffix a b \<Longrightarrow> suffix b c \<Longrightarrow> suffix a c"
  by (rule suffix_order.order_trans)

lemma matches_suffix: "y \<in> set (matches r x) \<Longrightarrow> suffix (rest y) (rest x)"
proof (induction r x arbitrary: y rule: matches.induct)
  case (2 c x) then show ?case by (auto split: list.splits if_splits intro: suffix_of_tail)
next
  case (3 x) then show ?case by (auto split: list.splits if_splits intro: suffix_of_tail)
next
  case (4 x) then show ?case by (auto split: list.splits if_splits intro: suffix_of_tail)
next
  case (6 r s x)
  from 6(3) obtain z where z: "z \<in> set (matches r x)" "y \<in> set (matches s z)" by auto
  show ?case using suffix_chain[OF 6(2)[OF z] 6(1)[OF z(1)]] .
next
  case (9 r x)
  show ?case
  proof (cases "y = x")
    case True then show ?thesis by simp
  next
    case False
    with 9(3) obtain z where z: "z \<in> set (matches r x)" "advanced x z" "y \<in> set (matches (Star r) z)"
      by (subst (asm) matches_Star) auto
    from z have "suffix (rest y) (rest z)" using 9(2) by simp
    then show ?thesis using 9(1)[OF z(1)] by (rule suffix_chain)
  qed
next
  case (10 r x)
  show ?case
  proof (cases "y = x")
    case True then show ?thesis by simp
  next
    case False
    with 10(3) obtain z where z: "z \<in> set (matches r x)" "advanced x z" "y \<in> set (matches (StarLazy r) z)"
      by (subst (asm) matches_StarLazy) auto
    from z have "suffix (rest y) (rest z)" using 10(2) by simp
    then show ?thesis using 10(1)[OF z(1)] by (rule suffix_chain)
  qed
next
  case (11 r x)
  from 11(3) obtain z where z: "z \<in> set (matches r x)" "y \<in> set (matches (Star r) z)" by auto
  show ?case using suffix_chain[OF 11(2)[OF z] 11(1)[OF z(1)]] .
next
  case (12 r x)
  from 12(3) obtain z where z: "z \<in> set (matches r x)" "y \<in> set (matches (StarLazy r) z)" by auto
  show ?case using suffix_chain[OF 12(2)[OF z] 12(1)[OF z(1)]] .
next
  case (13 r x) then show ?case by auto
qed (auto split: if_splits)

lemma advanced_iff:
  "y \<in> set (matches r x) \<Longrightarrow> advanced x y \<longleftrightarrow> length (rest y) \<noteq> length (rest x)"
  using suffix_length_le[OF matches_suffix[of y r x]] by (auto simp: advanced_def)

lemma cap_ok_refl: "cap_ok x x" by (simp add: cap_ok_def)

lemma sublist_chain: "sublist a b \<Longrightarrow> sublist b c \<Longrightarrow> sublist a c"
  by (rule sublist_order.order_trans)

lemma cap_ok_trans:
  assumes "cap_ok x z" "suffix (rest z) (rest x)" "cap_ok z y"
  shows "cap_ok x y"
proof -
  from assms(2) have s: "sublist (rest z) (rest x)" by (rule suffix_imp_sublist)
  from assms(3) consider "capture y = capture z" | g where "capture y = Some g" "sublist g (rest z)"
    by (auto simp: cap_ok_def)
  then show ?thesis
  proof cases
    case 1 with assms(1) show ?thesis by (simp add: cap_ok_def)
  next
    case 2
    from sublist_chain[OF 2(2) s] 2(1) show ?thesis by (simp add: cap_ok_def)
  qed
qed

lemma matches_capture: "y \<in> set (matches r x) \<Longrightarrow> cap_ok x y"
proof (induction r x arbitrary: y rule: matches.induct)
  case (2 c x) then show ?case by (auto split: list.splits if_splits simp: cap_ok_def)
next
  case (3 x) then show ?case by (auto split: list.splits if_splits simp: cap_ok_def)
next
  case (4 x) then show ?case by (auto split: list.splits if_splits simp: cap_ok_def)
next
  case (6 r s x)
  from 6(3) obtain z where z: "z \<in> set (matches r x)" "y \<in> set (matches s z)" by auto
  show ?case using cap_ok_trans[OF 6(1)[OF z(1)] matches_suffix[OF z(1)] 6(2)[OF z]] .
next
  case (9 r x)
  show ?case
  proof (cases "y = x")
    case True then show ?thesis by (simp add: cap_ok_refl)
  next
    case False
    with 9(3) obtain z where z: "z \<in> set (matches r x)" "advanced x z" "y \<in> set (matches (Star r) z)"
      by (subst (asm) matches_Star) auto
    from z have "cap_ok z y" using 9(2) by simp
    from cap_ok_trans[OF 9(1)[OF z(1)] matches_suffix[OF z(1)] this] show ?thesis .
  qed
next
  case (10 r x)
  show ?case
  proof (cases "y = x")
    case True then show ?thesis by (simp add: cap_ok_refl)
  next
    case False
    with 10(3) obtain z where z: "z \<in> set (matches r x)" "advanced x z" "y \<in> set (matches (StarLazy r) z)"
      by (subst (asm) matches_StarLazy) auto
    from z have "cap_ok z y" using 10(2) by simp
    from cap_ok_trans[OF 10(1)[OF z(1)] matches_suffix[OF z(1)] this] show ?thesis .
  qed
next
  case (11 r x)
  from 11(3) obtain z where z: "z \<in> set (matches r x)" "y \<in> set (matches (Star r) z)" by auto
  show ?case using cap_ok_trans[OF 11(1)[OF z(1)] matches_suffix[OF z(1)] 11(2)[OF z]] .
next
  case (12 r x)
  from 12(3) obtain z where z: "z \<in> set (matches r x)" "y \<in> set (matches (StarLazy r) z)" by auto
  show ?case using cap_ok_trans[OF 12(1)[OF z(1)] matches_suffix[OF z(1)] 12(2)[OF z]] .
next
  case (13 r x)
  from 13(2) show ?case by (auto simp: cap_ok_def)
qed (auto split: if_splits simp: cap_ok_def)

lemma matches_capture_kept:
  "y \<in> set (matches r x) \<Longrightarrow> capture x \<noteq> None \<Longrightarrow> capture y \<noteq> None"
  by (drule matches_capture) (auto simp: cap_ok_def)

lemma regexpExec_Some:
  "regexpExec r s = Some m \<Longrightarrow>
     \<exists>t y. suffix t s \<and> y \<in> set (matches r \<lparr>rest = t, capture = None\<rparr>) \<and> group1 m = capture y"
proof (induction s)
  case Nil
  then show ?case by (auto split: list.splits intro!: exI[of _ "[]"])
next
  case (Cons c cs)
  show ?case
  proof (cases "matches r \<lparr>rest = c # cs, capture = None\<rparr>")
    case Nil
    with Cons.prems have "regexpExec r cs = Some m" by simp
    from Cons.IH[OF this] obtain t y where
      "suffix t cs" "y \<in> set (matches r \<lparr>rest = t, capture = None\<rparr>)" "group1 m = capture y"
      by blast
    then show ?thesis by (auto simp: suffix_Cons)
  next
    case (Cons y ys)
    with Cons.prems have "group1 m = capture y" by auto
    with Cons show ?thesis by (intro exI[of _ "c # cs"] exI[of _ y]) simp
  qed
qed

lemma regexpExec_found:
  "suffix t s \<Longrightarrow> matches r \<lparr>rest = t, capture = None\<rparr> \<noteq> [] \<Longrightarrow> regexpExec r s \<noteq> None"
proof (induction s)
  case Nil
  then show ?case by (auto split: list.splits)
next
  case (Cons c cs)
  show ?case
  proof (cases "matches r \<lparr>rest = c # cs, capture = None\<rparr>")
    case Nil
    with Cons.prems have "t \<noteq> c # cs" by auto
    with Cons.prems(1) have "suffix t cs" by (auto simp: suffix_Cons)
    from Cons.IH[OF this Cons.prems(2)] Nil show ?thesis by simp
  next
    case (Cons y ys)
    then show ?thesis by simp
  qed
qed

lemma regexpExec_None:
  "regexpExec r s = None \<Longrightarrow> suffix t s \<Longrightarrow> matches r \<lparr>rest = t, capture = None\<rparr> = []"
  using regexpExec_found by blast

text \<open>
  What the parts of the session-switch pattern accept (soundness) and what they are sure to
  accept (completeness), as membership in the list of outcomes.
\<close>

lemma Seq_member:
  "z \<in> set (matches r x) \<Longrightarrow> y \<in> set (matches s z) \<Longrightarrow> y \<in> set (matches (Seq r s) x)"
  by auto

lemma Seq_split:
  "y \<in> set (matches (Seq r s) x) \<Longrightarrow> \<exists>z. z \<in> set (matches r x) \<and> y \<in> set (matches s z)"
  by auto

lemma Star_self: "x \<in> set (matches (Star r) x)"
  by (subst matches_Star) simp

lemma StarLazy_self: "x \<in> set (matches (StarLazy r) x)"
  by (subst matches_StarLazy) simp

lemma Chr_Cons:
  "rest x = a # as \<Longrightarrow>
     matches (Chr c) x = (if canonicalize a = canonicalize c then [x\<lparr>rest := as\<rparr>] else [])"
  by simp

lemma Chr_Nil: "rest x = [] \<Longrightarrow> matches (Chr c) x = []"
  by simp

lemma Chr_iff:
  "y \<in> set (matches (Chr c) x) \<longleftrightarrow>
     (\<exists>a as. rest x = a # as \<and> canonicalize a = canonicalize c \<and> y = x\<lparr>rest := as\<rparr>)"
proof (cases "rest x")
  case Nil
  then show ?thesis by (simp add: Chr_Nil del: matches.simps)
next
  case (Cons a as)
  show ?thesis
  proof (cases "canonicalize a = canonicalize c")
    case True
    with Cons show ?thesis by (simp add: Chr_Cons del: matches.simps)
  next
    case False
    with Cons show ?thesis by (simp add: Chr_Cons del: matches.simps)
  qed
qed

lemma WhiteSpaceClass_Cons:
  "rest x = a # as \<Longrightarrow>
     matches WhiteSpaceClass x = (if isWhiteSpace a then [x\<lparr>rest := as\<rparr>] else [])"
  by simp

lemma WhiteSpaceClass_Nil: "rest x = [] \<Longrightarrow> matches WhiteSpaceClass x = []"
  by simp

lemma WhiteSpaceClass_iff:
  "y \<in> set (matches WhiteSpaceClass x) \<longleftrightarrow>
     (\<exists>a as. rest x = a # as \<and> isWhiteSpace a \<and> y = x\<lparr>rest := as\<rparr>)"
proof (cases "rest x")
  case Nil
  then show ?thesis by (simp add: WhiteSpaceClass_Nil del: matches.simps)
next
  case (Cons a as)
  show ?thesis
  proof (cases "isWhiteSpace a")
    case True
    with Cons show ?thesis by (simp add: WhiteSpaceClass_Cons del: matches.simps)
  next
    case False
    with Cons show ?thesis by (simp add: WhiteSpaceClass_Cons del: matches.simps)
  qed
qed

lemma AnyChar_Cons:
  "rest x = a # as \<Longrightarrow>
     matches AnyChar x = (if isLineTerminator a then [] else [x\<lparr>rest := as\<rparr>])"
  by simp

lemma AnyChar_Nil: "rest x = [] \<Longrightarrow> matches AnyChar x = []"
  by simp

lemma AnyChar_iff:
  "y \<in> set (matches AnyChar x) \<longleftrightarrow>
     (\<exists>a as. rest x = a # as \<and> \<not> isLineTerminator a \<and> y = x\<lparr>rest := as\<rparr>)"
proof (cases "rest x")
  case Nil
  then show ?thesis by (simp add: AnyChar_Nil del: matches.simps)
next
  case (Cons a as)
  show ?thesis
  proof (cases "isLineTerminator a")
    case True
    with Cons show ?thesis by (simp add: AnyChar_Cons del: matches.simps)
  next
    case False
    with Cons show ?thesis by (simp add: AnyChar_Cons del: matches.simps)
  qed
qed

lemma literal_sound:
  "y \<in> set (matches (literal p) x) \<Longrightarrow>
     \<exists>v. rest x = v @ rest y \<and> map canonicalize v = map canonicalize p"
proof (induction p arbitrary: x y rule: literal.induct)
  case 1
  then show ?case by simp
next
  case (2 c)
  then obtain a as where "rest x = a # as" "canonicalize a = canonicalize c" "y = x\<lparr>rest := as\<rparr>"
    unfolding literal.simps Chr_iff by blast
  then show ?case by (intro exI[of _ "[a]"]) simp
next
  case (3 c d cs)
  from 3(2) obtain z where z: "z \<in> set (matches (Chr c) x)" "y \<in> set (matches (literal (d # cs)) z)"
    by auto
  from z(1) obtain a where a: "rest x = a # rest z" "canonicalize a = canonicalize c"
    unfolding Chr_iff by auto
  from 3(1)[OF z(2)] obtain v where "rest z = v @ rest y" "map canonicalize v = map canonicalize (d # cs)"
    by blast
  with a show ?case by (intro exI[of _ "a # v"]) simp
qed

lemma literal_complete:
  "map canonicalize v = map canonicalize p \<Longrightarrow>
     x\<lparr>rest := t\<rparr> \<in> set (matches (literal p) (x\<lparr>rest := v @ t\<rparr>))"
proof (induction p arbitrary: x v rule: literal.induct)
  case 1
  then show ?case by simp
next
  case (2 c)
  then obtain a where "v = [a]" "canonicalize a = canonicalize c" by (cases v) auto
  then show ?case by simp
next
  case (3 c d cs)
  from 3(2) obtain a v' where v: "v = a # v'" "canonicalize a = canonicalize c"
    "map canonicalize v' = map canonicalize (d # cs)" by (cases v) auto
  have "x\<lparr>rest := v' @ t\<rparr> \<in> set (matches (Chr c) (x\<lparr>rest := v @ t\<rparr>))"
    using v by simp
  moreover have "x\<lparr>rest := t\<rparr> \<in> set (matches (literal (d # cs)) (x\<lparr>rest := v' @ t\<rparr>))"
    using 3(1)[OF v(3), of x] .
  ultimately show ?case by (simp only: literal.simps) (rule Seq_member)
qed

lemma switchVerb_sound:
  "y \<in> set (matches switchVerb x) \<Longrightarrow> \<exists>v. rest x = v @ rest y \<and> is_switch_verb v"
proof -
  assume "y \<in> set (matches switchVerb x)"
  then consider "y \<in> set (matches (literal ''load'') x)"
    | "y \<in> set (matches (literal ''switch to'') x)"
    | "y \<in> set (matches (literal ''open'') x)"
    unfolding switchVerb_def by (simp only: matches.simps set_append) blast
  then show ?thesis
  proof cases
    case 1 from literal_sound[OF this] show ?thesis unfolding is_switch_verb_def by blast
  next
    case 2 from literal_sound[OF this] show ?thesis unfolding is_switch_verb_def by blast
  next
    case 3 from literal_sound[OF this] show ?thesis unfolding is_switch_verb_def by blast
  qed
qed

lemma switchVerb_complete:
  assumes "is_switch_verb v"
  shows "x\<lparr>rest := t\<rparr> \<in> set (matches switchVerb (x\<lparr>rest := v @ t\<rparr>))"
proof -
  from assms consider "map canonicalize v = map canonicalize ''load''"
    | "map canonicalize v = map canonicalize ''switch to''"
    | "map canonicalize v = map canonicalize ''open''"
    unfolding is_switch_verb_def by blast
  then show ?thesis
  proof cases
    case 1 from literal_complete[OF this] show ?thesis
      unfolding switchVerb_def by (simp only: matches.simps set_append) blast
  next
    case 2 from literal_complete[OF this] show ?thesis
      unfolding switchVerb_def by (simp only: matches.simps set_append) blast
  next
    case 3 from literal_complete[OF this] show ?thesis
      unfolding switchVerb_def by (simp only: matches.simps set_append) blast
  qed
qed

lemma Plus_WhiteSpace_sound:
  assumes "y \<in> set (matches (Plus WhiteSpaceClass) x)"
  shows "\<exists>w u. rest x = w # u \<and> isWhiteSpace w \<and> suffix (rest y) u"
proof -
  from assms obtain z where z: "z \<in> set (matches WhiteSpaceClass x)" "y \<in> set (matches (Star WhiteSpaceClass) z)"
    by (simp only: matches.simps(11) set_concat set_map) blast
  from z(1) obtain w where "rest x = w # rest z" "isWhiteSpace w"
    unfolding WhiteSpaceClass_iff by auto
  with matches_suffix[OF z(2)] show ?thesis by blast
qed

lemma Plus_WhiteSpace_complete:
  assumes "isWhiteSpace w"
  shows "x\<lparr>rest := t\<rparr> \<in> set (matches (Plus WhiteSpaceClass) (x\<lparr>rest := w # t\<rparr>))"
proof -
  have "x\<lparr>rest := t\<rparr> \<in> set (matches WhiteSpaceClass (x\<lparr>rest := w # t\<rparr>))"
    using assms by simp
  moreover have "x\<lparr>rest := t\<rparr> \<in> set (matches (Star WhiteSpaceClass) (x\<lparr>rest := t\<rparr>))"
    by (rule Star_self)
  ultimately show ?thesis
    by (simp only: matches.simps(11) set_concat set_map) blast
qed

lemma StarLazy_AnyChar_complete:
  "\<forall>c\<in>set n. \<not> isLineTerminator c \<Longrightarrow>
     x\<lparr>rest := t\<rparr> \<in> set (matches (StarLazy AnyChar) (x\<lparr>rest := n @ t\<rparr>))"
proof (induction n arbitrary: x)
  case Nil
  show ?case using StarLazy_self[of "x\<lparr>rest := t\<rparr>"] by simp
next
  case (Cons a n)
  have "x\<lparr>rest := t\<rparr> \<in> set (matches (StarLazy AnyChar) (x\<lparr>rest := n @ t\<rparr>))"
    using Cons by simp
  then show ?case using Cons.prems
    by (subst matches_StarLazy) (simp add: advanced_def)
qed

lemma PlusLazy_AnyChar_complete:
  assumes "n \<noteq> []" "\<forall>c\<in>set n. \<not> isLineTerminator c"
  shows "x\<lparr>rest := t\<rparr> \<in> set (matches (PlusLazy AnyChar) (x\<lparr>rest := n @ t\<rparr>))"
proof -
  from assms obtain a n' where n: "n = a # n'" by (cases n) auto
  have "x\<lparr>rest := t\<rparr> \<in> set (matches (StarLazy AnyChar) (x\<lparr>rest := n' @ t\<rparr>))"
    using assms(2) n by (intro StarLazy_AnyChar_complete) simp
  then show ?thesis using assms(2) n by simp
qed

lemma Group_PlusLazy_AnyChar_sound:
  assumes "y \<in> set (matches (Group (PlusLazy AnyChar)) x)"
  shows "rest x \<noteq> [] \<and> capture y \<noteq> None"
proof -
  from assms obtain z where z: "z \<in> set (matches (PlusLazy AnyChar) x)"
    and y: "y = z\<lparr>capture := Some (take (length (rest x) - length (rest z)) (rest x))\<rparr>"
    by (simp only: matches.simps(13) set_map) blast
  from z obtain z' where "z' \<in> set (matches AnyChar x)"
    by (simp only: matches.simps(12) set_concat set_map) blast
  then have "rest x \<noteq> []" unfolding AnyChar_iff by auto
  with y show ?thesis by simp
qed

lemma sessionSwitchPattern_sound:
  assumes "y \<in> set (matches sessionSwitchPattern x)"
  shows "(\<exists>v w n. rest x = v @ w # n \<and> is_switch_verb v \<and> isWhiteSpace w \<and> n \<noteq> [])
         \<and> capture y \<noteq> None"
proof -
  from assms obtain z1 z2 z3 z4 where
    z1: "z1 \<in> set (matches switchVerb x)" and
    z2: "z2 \<in> set (matches (Plus WhiteSpaceClass) z1)" and
    z3: "z3 \<in> set (matches (Opt (Seq (literal ''the'') (Plus WhiteSpaceClass))) z2)" and
    z4: "z4 \<in> set (matches (Group (PlusLazy AnyChar)) z3)" and
    y: "y \<in> set (matches (Seq (Opt (Seq (Plus WhiteSpaceClass) (literal ''session''))) EndAnchor) z4)"
    unfolding sessionSwitchPattern_def by (metis Seq_split)
  from switchVerb_sound[OF z1] obtain v where v: "rest x = v @ rest z1" "is_switch_verb v" by blast
  from Plus_WhiteSpace_sound[OF z2] obtain w u where
    w: "rest z1 = w # u" "isWhiteSpace w" "suffix (rest z2) u" by blast
  from Group_PlusLazy_AnyChar_sound[OF z4] have g: "rest z3 \<noteq> []" "capture z4 \<noteq> None" by simp_all
  from matches_suffix[OF z3] w(3) have "suffix (rest z3) u" by (rule suffix_chain)
  with g(1) have "u \<noteq> []" by auto
  moreover from matches_capture_kept[OF y g(2)] have "capture y \<noteq> None" .
  ultimately show ?thesis using v w by auto
qed

lemma sessionSwitchPattern_complete:
  assumes "is_switch_verb v" "isWhiteSpace w" "n \<noteq> []" "\<forall>c\<in>set n. \<not> isLineTerminator c"
  shows "matches sessionSwitchPattern \<lparr>rest = v @ w # n, capture = None\<rparr> \<noteq> []"
proof -
  let ?x = "\<lparr>rest = [], capture = None\<rparr>"
  have 1: "?x\<lparr>rest := w # n\<rparr> \<in> set (matches switchVerb (?x\<lparr>rest := v @ w # n\<rparr>))"
    by (rule switchVerb_complete[OF assms(1)])
  have 2: "?x\<lparr>rest := n\<rparr> \<in> set (matches (Plus WhiteSpaceClass) (?x\<lparr>rest := w # n\<rparr>))"
    by (rule Plus_WhiteSpace_complete[OF assms(2)])
  have 3: "?x\<lparr>rest := n\<rparr> \<in> set (matches (Opt (Seq (literal ''the'') (Plus WhiteSpaceClass))) (?x\<lparr>rest := n\<rparr>))"
    by simp
  have "?x\<lparr>rest := []\<rparr> \<in> set (matches (PlusLazy AnyChar) (?x\<lparr>rest := n @ []\<rparr>))"
    by (rule PlusLazy_AnyChar_complete[OF assms(3,4)])
  then have "?x\<lparr>rest := []\<rparr> \<in> set (matches (PlusLazy AnyChar) (?x\<lparr>rest := n\<rparr>))"
    by (simp del: matches.simps)
  then have "(\<lambda>y. y\<lparr>capture := Some (take (length (rest (?x\<lparr>rest := n\<rparr>)) - length (rest y))
                 (rest (?x\<lparr>rest := n\<rparr>)))\<rparr>) (?x\<lparr>rest := []\<rparr>)
         \<in> set (matches (Group (PlusLazy AnyChar)) (?x\<lparr>rest := n\<rparr>))"
    unfolding matches.simps(13) set_map by (rule imageI)
  then have 4: "?x\<lparr>rest := [], capture := Some n\<rparr> \<in> set (matches (Group (PlusLazy AnyChar)) (?x\<lparr>rest := n\<rparr>))"
    by (simp del: matches.simps)
  let ?y = "?x\<lparr>rest := [], capture := Some n\<rparr>"
  have 5: "?y \<in> set (matches (Seq (Opt (Seq (Plus WhiteSpaceClass) (literal ''session''))) EndAnchor) ?y)"
    by simp
  have "?y \<in> set (matches sessionSwitchPattern (?x\<lparr>rest := v @ w # n\<rparr>))"
    unfolding sessionSwitchPattern_def
    by (rule Seq_member[OF 1] Seq_member[OF 2] Seq_member[OF 3] Seq_member[OF 4] 5)+
  then show ?thesis by auto
qed

text \<open>
  The order of the outcomes: for \<open>Load the nm session\<close> the lazy group first stops where
  the name ends, because the end of the pattern fails at every earlier stop.
\<close>

lemma advanced_tail: "rest x = a # as \<Longrightarrow> advanced x (x\<lparr>rest := as\<rparr>)"
  by (simp add: advanced_def)

lemma Star_WhiteSpace_Cons:
  assumes r: "rest x = a # as"
  shows "matches (Star WhiteSpaceClass) x =
       (if isWhiteSpace a then matches (Star WhiteSpaceClass) (x\<lparr>rest := as\<rparr>) else []) @ [x]"
proof -
  have "matches (Star WhiteSpaceClass) x =
    concat (map (matches (Star WhiteSpaceClass))
      (filter (advanced x) (matches WhiteSpaceClass x))) @ [x]"
    by (rule matches_Star)
  also have "matches WhiteSpaceClass x = (if isWhiteSpace a then [x\<lparr>rest := as\<rparr>] else [])"
    using r by (rule WhiteSpaceClass_Cons)
  finally show ?thesis using advanced_tail[OF r] by (cases "isWhiteSpace a") simp_all
qed

lemma Star_WhiteSpace_Nil:
  assumes r: "rest x = []"
  shows "matches (Star WhiteSpaceClass) x = [x]"
proof -
  have "matches (Star WhiteSpaceClass) x =
    concat (map (matches (Star WhiteSpaceClass))
      (filter (advanced x) (matches WhiteSpaceClass x))) @ [x]"
    by (rule matches_Star)
  also have "matches WhiteSpaceClass x = []"
    using r by (rule WhiteSpaceClass_Nil)
  finally show ?thesis by simp
qed

lemma StarLazy_AnyChar_Cons:
  assumes r: "rest x = a # as"
  shows "matches (StarLazy AnyChar) x =
       x # (if isLineTerminator a then [] else matches (StarLazy AnyChar) (x\<lparr>rest := as\<rparr>))"
proof -
  have "matches (StarLazy AnyChar) x =
    x # concat (map (matches (StarLazy AnyChar)) (filter (advanced x) (matches AnyChar x)))"
    by (rule matches_StarLazy)
  also have "matches AnyChar x = (if isLineTerminator a then [] else [x\<lparr>rest := as\<rparr>])"
    using r by (rule AnyChar_Cons)
  finally show ?thesis using advanced_tail[OF r] by (cases "isLineTerminator a") simp_all
qed

lemma Star_WhiteSpace_sound:
  "y \<in> set (matches (Star WhiteSpaceClass) x) \<Longrightarrow>
     \<exists>ws. rest x = ws @ rest y \<and> (\<forall>c\<in>set ws. isWhiteSpace c)"
proof (induction "rest x" arbitrary: x)
  case Nil
  then have "y = x" by (simp add: Star_WhiteSpace_Nil)
  then show ?case by simp
next
  case (Cons a as)
  from Cons(2) have r: "rest x = a # as" by simp
  show ?case
  proof (cases "y = x")
    case True
    then show ?thesis by simp
  next
    case False
    with Cons(3) r have a: "isWhiteSpace a"
      and y: "y \<in> set (matches (Star WhiteSpaceClass) (x\<lparr>rest := as\<rparr>))"
      by (auto simp add: Star_WhiteSpace_Cons split: if_splits)
    have "as = rest (x\<lparr>rest := as\<rparr>)" by simp
    from Cons(1)[OF this y] obtain ws where "as = ws @ rest y" "\<forall>c\<in>set ws. isWhiteSpace c"
      by auto
    with a r show ?thesis by (intro exI[of _ "a # ws"]) simp
  qed
qed

lemma Plus_WhiteSpace_run:
  assumes "y \<in> set (matches (Plus WhiteSpaceClass) x)"
  shows "\<exists>ws. rest x = ws @ rest y \<and> (\<forall>c\<in>set ws. isWhiteSpace c)"
proof -
  from assms obtain z where z: "z \<in> set (matches WhiteSpaceClass x)"
    "y \<in> set (matches (Star WhiteSpaceClass) z)"
    by (simp only: matches.simps(11) set_concat set_map) blast
  from z(1) obtain w where w: "rest x = w # rest z" "isWhiteSpace w"
    unfolding WhiteSpaceClass_iff by auto
  from Star_WhiteSpace_sound[OF z(2)] obtain ws where
    "rest z = ws @ rest y" "\<forall>c\<in>set ws. isWhiteSpace c" by blast
  with w show ?thesis by (intro exI[of _ "w # ws"]) simp
qed

lemma session_tail_fails:
  assumes "rest z = u @ '' session''" "u \<noteq> []" "\<not> isWhiteSpace (last u)"
  shows "matches (Seq (Opt (Seq (Plus WhiteSpaceClass) (literal ''session''))) EndAnchor) z = []"
proof (rule ccontr)
  assume "matches (Seq (Opt (Seq (Plus WhiteSpaceClass) (literal ''session''))) EndAnchor) z \<noteq> []"
  then obtain y where
    "y \<in> set (matches (Seq (Opt (Seq (Plus WhiteSpaceClass) (literal ''session''))) EndAnchor) z)"
    by (meson last_in_set)
  then obtain z' where z': "z' \<in> set (matches (Opt (Seq (Plus WhiteSpaceClass) (literal ''session''))) z)"
    and "y \<in> set (matches EndAnchor z')" by (blast dest: Seq_split)
  then have e: "rest z' = []" by (simp split: if_splits)
  from assms have "rest z \<noteq> []" by simp
  with e have "z' \<noteq> z" by auto
  with z' have "z' \<in> set (matches (Seq (Plus WhiteSpaceClass) (literal ''session'')) z)"
    by (simp only: matches.simps(8) set_append set_filter) auto
  then obtain z1 where z1: "z1 \<in> set (matches (Plus WhiteSpaceClass) z)"
    "z' \<in> set (matches (literal ''session'') z1)" by (blast dest: Seq_split)
  from Plus_WhiteSpace_run[OF z1(1)] obtain ws where
    ws: "rest z = ws @ rest z1" "\<forall>c\<in>set ws. isWhiteSpace c" by blast
  from literal_sound[OF z1(2)] e obtain v where
    v: "rest z1 = v" "map canonicalize v = map canonicalize ''session''" by auto
  from v(2) have "length v = length ''session''" by (metis length_map)
  moreover from ws v assms(1) have "(u @ '' '') @ ''session'' = ws @ v" by simp
  ultimately have "u @ '' '' = ws" by (metis append_eq_append_conv)
  with assms(2) have "last u \<in> set ws" by auto
  with ws(2) assms(3) show False by blast
qed

lemma session_tail_end:
  "matches session_tail \<lparr>rest = '' session'', capture = c\<rparr> = [\<lparr>rest = [], capture = c\<rparr>]"
  by (simp add: session_tail_def match_eval)

lemma lazy_name_search:
  assumes "rest x = u @ '' session''" "\<forall>c\<in>set u. \<not> isLineTerminator c"
    "u \<noteq> [] \<longrightarrow> \<not> isWhiteSpace (last u)"
  shows "\<exists>ys. concat (map (\<lambda>y. matches session_tail (set_capture r0 y))
                  (matches (StarLazy AnyChar) x)) =
              matches session_tail (set_capture r0 (x\<lparr>rest := '' session''\<rparr>)) @ ys"
  using assms
proof (induction u arbitrary: x)
  case Nil
  then have r: "rest x = CHR '' '' # ''session''" by simp
  then have "x\<lparr>rest := '' session''\<rparr> = x" by simp
  moreover from StarLazy_AnyChar_Cons[OF r] obtain zs where
    "matches (StarLazy AnyChar) x = x # zs" by blast
  ultimately show ?case by simp
next
  case (Cons a u)
  from Cons.prems(1) have r: "rest x = a # (u @ '' session'')" by simp
  let ?x' = "x\<lparr>rest := u @ '' session''\<rparr>"
  from Cons.prems(2) have a: "\<not> isLineTerminator a" by simp
  with StarLazy_AnyChar_Cons[OF r] have
    m: "matches (StarLazy AnyChar) x = x # matches (StarLazy AnyChar) ?x'" by simp
  have "rest (set_capture r0 x) = (a # u) @ '' session''"
    using Cons.prems(1) by (simp add: set_capture_def)
  moreover from Cons.prems(3) have "\<not> isWhiteSpace (last (a # u))" by blast
  ultimately have f: "matches session_tail (set_capture r0 x) = []"
    unfolding session_tail_def by (intro session_tail_fails[where u = "a # u"]) simp_all
  have "rest ?x' = u @ '' session''" by simp
  moreover from Cons.prems(2) have "\<forall>c\<in>set u. \<not> isLineTerminator c" by simp
  moreover from Cons.prems(3) have "u \<noteq> [] \<longrightarrow> \<not> isWhiteSpace (last u)" by auto
  ultimately obtain ys where
    "concat (map (\<lambda>y. matches session_tail (set_capture r0 y)) (matches (StarLazy AnyChar) ?x')) =
       matches session_tail (set_capture r0 (?x'\<lparr>rest := '' session''\<rparr>)) @ ys"
    using Cons.IH[of ?x'] by blast
  with m f show ?case by simp
qed

lemma group_then_tail:
  assumes "\<not> isLineTerminator a" "\<forall>c\<in>set as. \<not> isLineTerminator c"
    "\<not> isWhiteSpace (last (a # as))"
  shows "\<exists>ys. matches (Seq (Group (PlusLazy AnyChar)) session_tail)
                \<lparr>rest = (a # as) @ '' session'', capture = c\<rparr> =
              \<lparr>rest = [], capture = Some (a # as)\<rparr> # ys"
proof -
  let ?x = "\<lparr>rest = (a # as) @ '' session'', capture = c\<rparr>"
  let ?x' = "\<lparr>rest = as @ '' session'', capture = c\<rparr>"
  have any: "matches AnyChar ?x = [?x']" using assms(1) by simp
  have "matches (Seq (Group (PlusLazy AnyChar)) session_tail) ?x =
      concat (map (matches session_tail) (map (set_capture (rest ?x)) (matches (PlusLazy AnyChar) ?x)))"
    unfolding matches.simps(6) matches.simps(13) set_capture_def ..
  also have "matches (PlusLazy AnyChar) ?x = matches (StarLazy AnyChar) ?x'"
    unfolding matches.simps(12) any by simp
  finally have 1: "matches (Seq (Group (PlusLazy AnyChar)) session_tail) ?x =
      concat (map (\<lambda>y. matches session_tail (set_capture (rest ?x) y)) (matches (StarLazy AnyChar) ?x'))"
    by (simp add: comp_def del: matches.simps)
  have "rest ?x' = as @ '' session''" by simp
  moreover from assms(3) have "as \<noteq> [] \<longrightarrow> \<not> isWhiteSpace (last as)" by auto
  ultimately obtain ys where
    2: "concat (map (\<lambda>y. matches session_tail (set_capture (rest ?x) y)) (matches (StarLazy AnyChar) ?x')) =
        matches session_tail (set_capture (rest ?x) (?x'\<lparr>rest := '' session''\<rparr>)) @ ys"
    using lazy_name_search[of ?x' as "rest ?x"] assms(2) by blast
  have "set_capture (rest ?x) (?x'\<lparr>rest := '' session''\<rparr>) =
      \<lparr>rest = '' session'', capture = Some (a # as)\<rparr>"
    by (simp add: set_capture_def)
  with 1 2 show ?thesis by (simp add: session_tail_end del: matches.simps)
qed

lemma load_the_prefix:
  assumes "\<not> isWhiteSpace a"
  shows "matches (Seq switchVerb (Seq (Plus WhiteSpaceClass)
            (Seq (Opt (Seq (literal ''the'') (Plus WhiteSpaceClass))) R)))
          \<lparr>rest = ''Load the '' @ a # t, capture = None\<rparr> =
         matches R \<lparr>rest = a # t, capture = None\<rparr> @
         matches R \<lparr>rest = ''the '' @ a # t, capture = None\<rparr>"
  using assms by (simp add: match_eval)

lemma load_the_name_session:
  assumes "nm \<noteq> []" "\<forall>c\<in>set nm. \<not> isLineTerminator c"
    "\<not> isWhiteSpace (hd nm)" "\<not> isWhiteSpace (last nm)"
  shows "sessionSwitchMatch (''Load the '' @ nm @ '' session'') =
     Some \<lparr>matched = ''Load the '' @ nm @ '' session'', group1 = Some nm\<rparr>"
proof -
  from assms(1) obtain a as where n: "nm = a # as" by (cases nm) auto
  with assms have a: "\<not> isLineTerminator a" "\<forall>c\<in>set as. \<not> isLineTerminator c"
    "\<not> isWhiteSpace a" "\<not> isWhiteSpace (last (a # as))" by simp_all
  from group_then_tail[OF a(1,2,4), of None] obtain ys where
    g: "matches (Seq (Group (PlusLazy AnyChar)) session_tail)
          \<lparr>rest = a # as @ '' session'', capture = None\<rparr> =
        \<lparr>rest = [], capture = Some (a # as)\<rparr> # ys" by auto
  have "matches sessionSwitchPattern \<lparr>rest = ''Load the '' @ a # (as @ '' session''), capture = None\<rparr> =
      matches (Seq (Group (PlusLazy AnyChar)) session_tail) \<lparr>rest = a # (as @ '' session''), capture = None\<rparr> @
      matches (Seq (Group (PlusLazy AnyChar)) session_tail) \<lparr>rest = ''the '' @ a # (as @ '' session''), capture = None\<rparr>"
    unfolding sessionSwitchPattern_def session_tail_def by (rule load_the_prefix[OF a(3)])
  with g obtain zs where
    "matches sessionSwitchPattern \<lparr>rest = ''Load the '' @ a # (as @ '' session''), capture = None\<rparr> =
       \<lparr>rest = [], capture = Some (a # as)\<rparr> # zs" by simp
  then show ?thesis unfolding sessionSwitchMatch_def n by simp
qed

section \<open>The session-switch pattern on messages\<close>

lemma load_my_recent_trades:
  "sessionSwitchMatch ''Can you load my recent trades'' =
     Some \<lparr>matched = ''load my recent trades'', group1 = Some ''my recent trades''\<rparr>"
  by (simp add: match_eval)

lemma trim1: "trim ''Can you load my recent trades'' = ''Can you load my recent trades''"
  by (simp add: trim_def isWhiteSpace_def)


lemma sessionSwitchMatch_Nil: "sessionSwitchMatch [] = None"
  by (simp add: match_eval)

lemma sessionSwitchMatch_group:
  assumes "sessionSwitchMatch s = Some m"
  shows "\<exists>g. group1 m = Some g \<and> sublist g s"
proof -
  from assms obtain t y where t: "suffix t s"
    and y: "y \<in> set (matches sessionSwitchPattern \<lparr>rest = t, capture = None\<rparr>)"
    and m: "group1 m = capture y"
    unfolding sessionSwitchMatch_def by (blast dest: regexpExec_Some)
  from sessionSwitchPattern_sound[OF y] obtain g where g: "capture y = Some g" by auto
  with matches_capture[OF y] have "sublist g t" by (simp add: cap_ok_def)
  with t have "sublist g s" using sublist_chain suffix_imp_sublist by blast
  with g m show ?thesis by simp
qed

lemma sessionSwitchMatch_shape:
  assumes "sessionSwitchMatch s \<noteq> None"
  shows "\<exists>pre v w n. s = pre @ v @ w # n \<and> is_switch_verb v \<and> isWhiteSpace w \<and> n \<noteq> []"
proof -
  from assms obtain m where "sessionSwitchMatch s = Some m" by auto
  then obtain t y where t: "suffix t s"
    and y: "y \<in> set (matches sessionSwitchPattern \<lparr>rest = t, capture = None\<rparr>)"
    unfolding sessionSwitchMatch_def by (blast dest: regexpExec_Some)
  from sessionSwitchPattern_sound[OF y] obtain v w n where
    "t = v @ w # n" "is_switch_verb v" "isWhiteSpace w" "n \<noteq> []" by auto
  moreover from t obtain pre where "s = pre @ t" by (auto simp: suffix_def)
  ultimately show ?thesis by blast
qed

lemma sessionSwitchMatch_found:
  assumes "is_switch_verb v" "isWhiteSpace w" "n \<noteq> []" "\<forall>c\<in>set n. \<not> isLineTerminator c"
  shows "sessionSwitchMatch (pre @ v @ w # n) \<noteq> None"
  unfolding sessionSwitchMatch_def
  by (rule regexpExec_found[OF _ sessionSwitchPattern_complete[OF assms]]) (simp add: suffix_def)

lemma trim_sublist: "sublist (trim g) g"
proof -
  have "prefix (rev (dropWhile isWhiteSpace (rev (dropWhile isWhiteSpace g)))) (dropWhile isWhiteSpace g)"
    by (metis rev_rev_ident suffix_dropWhile suffix_to_prefix)
  then have "sublist (trim g) (dropWhile isWhiteSpace g)"
    unfolding trim_def by (rule prefix_imp_sublist)
  then show ?thesis using sublist_chain sublist_dropWhile by blast
qed

lemma handle_switch:
  assumes "user co = Some uid" "\<not> isLoading st" "trim (inputMessage st) \<noteq> []"
    "sessionSwitchMatch (trim (inputMessage st)) = Some m" "group1 m = Some g"
    "onSessionSwitch props = Some callback"
  shows "handleSendMessage props co st =
     (case callback (trim g) of
        Throws \<Rightarrow>
          (st\<lparr>messages := messages st @ [\<lparr>msg_id = now_submit co, role = User,
                               content = trim (inputMessage st), timestamp = now_submit co\<rparr>],
              inputMessage := [], isLoading := False\<rparr>,
           [CallOnSessionSwitch (trim g), ToastError toastText, ConsoleError ''Chat error:''])
      | Returns \<Rightarrow>
          (st\<lparr>messages := messages st @
                 [\<lparr>msg_id = now_submit co, role = User,
                               content = trim (inputMessage st), timestamp = now_submit co\<rparr>,
                  \<lparr>msg_id = now_reply co + 1, role = Assistant,
                    content = acknowledgement (trim g), timestamp = now_reply co\<rparr>],
              inputMessage := [], isLoading := False\<rparr>,
           [CallOnSessionSwitch (trim g)]))"
  using assms by (simp add: handleSendMessage_def Let_def caught_def split: outcome.split)

lemma handle_general:
  assumes "user co = Some uid" "\<not> isLoading st" "trim (inputMessage st) \<noteq> []"
    "sessionSwitchMatch (trim (inputMessage st)) = None \<or> onSessionSwitch props = None"
  shows "handleSendMessage props co st =
     (case sendChatMessage co (trim (inputMessage st)) uid (currentSessionId props) of
        Rejected \<Rightarrow>
          (st\<lparr>messages := messages st @ [\<lparr>msg_id = now_submit co, role = User,
                               content = trim (inputMessage st), timestamp = now_submit co\<rparr>],
              inputMessage := [], isLoading := False\<rparr>,
           [CallSendChatMessage (trim (inputMessage st)) uid (currentSessionId props),
            ToastError toastText, ConsoleError ''Chat error:''])
      | Resolved aiResponse \<Rightarrow>
          (st\<lparr>messages := messages st @
                 [\<lparr>msg_id = now_submit co, role = User,
                               content = trim (inputMessage st), timestamp = now_submit co\<rparr>,
                  \<lparr>msg_id = now_reply co + 1, role = Assistant,
                    content = aiResponse, timestamp = now_reply co\<rparr>],
              inputMessage := [], isLoading := False\<rparr>,
           [CallSendChatMessage (trim (inputMessage st)) uid (currentSessionId props)]))"
  using assms
  by (auto simp add: handleSendMessage_def Let_def caught_def split: promise.split option.split)

section \<open>Turns of the chat widget\<close>

lemma trim_id:
  assumes "nm \<noteq> []" "\<not> isWhiteSpace (hd nm)" "\<not> isWhiteSpace (last nm)"
  shows "trim nm = nm"
proof -
  from assms(1,2) have 1: "dropWhile isWhiteSpace nm = nm" by (cases nm) auto
  from assms(1,3) have "\<not> isWhiteSpace (hd (rev nm))" by (simp add: hd_rev)
  with assms(1) have "dropWhile isWhiteSpace (rev nm) = rev nm" by (cases "rev nm") auto
  with 1 show ?thesis by (simp add: trim_def)
qed

lemma load_btc:
  "sessionSwitchMatch ''Load the BTC 5 Minute session'' =
     Some \<lparr>matched = ''Load the BTC 5 Minute session'', group1 = Some ''BTC 5 Minute''\<rparr>"
  by (simp add: match_eval)

lemma trim_btc: "trim ''Load the BTC 5 Minute session'' = ''Load the BTC 5 Minute session''"
  "trim ''BTC 5 Minute'' = ''BTC 5 Minute''"
  by (simp_all add: trim_def isWhiteSpace_def)

text \<open>
  Claim C6. The message \<open>Load the BTC 5 Minute session\<close> matches the pattern with the
  capture \<open>BTC 5 Minute\<close>, and with a callback the turn calls it with exactly that name.
  The name is taken over as it is written: for every non-empty name \<open>nm\<close> on one line
  that neither begins nor ends with white space, \<open>Load the nm session\<close> yields \<open>nm\<close>
  itself, without the leading \<open>the\<close> and the trailing \<open>session\<close>; and whatever the
  message, the extracted name is a piece of the message, character by character.
\<close>

theorem load_the_session_name:
  "sessionSwitchMatch ''Load the BTC 5 Minute session'' =
     Some \<lparr>matched = ''Load the BTC 5 Minute session'', group1 = Some ''BTC 5 Minute''\<rparr> \<and>
   take 1 (snd (handleSendMessage (sample_props (Some callback)) sample_collaborators
                  (typed ''Load the BTC 5 Minute session''))) =
     [CallOnSessionSwitch ''BTC 5 Minute''] \<and>
   (nm \<noteq> [] \<and> (\<forall>c\<in>set nm. \<not> isLineTerminator c) \<and>
    \<not> isWhiteSpace (hd nm) \<and> \<not> isWhiteSpace (last nm) \<longrightarrow>
      sessionSwitchMatch (''Load the '' @ nm @ '' session'') =
        Some \<lparr>matched = ''Load the '' @ nm @ '' session'', group1 = Some nm\<rparr> \<and>
      trim nm = nm) \<and>
   (sessionSwitchMatch s = Some m \<longrightarrow> (\<exists>g. group1 m = Some g \<and> sublist (trim g) s))"
proof -
  have 2: "take 1 (snd (handleSendMessage (sample_props (Some callback)) sample_collaborators
                  (typed ''Load the BTC 5 Minute session''))) =
     [CallOnSessionSwitch ''BTC 5 Minute'']"
    by (simp add: handleSendMessage_def sample_props_def sample_collaborators_def typed_def
        trim_btc load_btc Let_def caught_def split: outcome.split)
  have 4: "sessionSwitchMatch s = Some m \<longrightarrow> (\<exists>g. group1 m = Some g \<and> sublist (trim g) s)"
    using sessionSwitchMatch_group sublist_chain trim_sublist by blast
  from load_btc 2 4 load_the_name_session trim_id show ?thesis by blast
qed

text \<open>
  A name with capitals and punctuation, and the name of claim C6 as a piece of its message.
\<close>

theorem load_the_session_name_witness:
  "sessionSwitchMatch ''Load the ETH/USD: scalp #2! session'' =
     Some \<lparr>matched = ''Load the ETH/USD: scalp #2! session'',
           group1 = Some ''ETH/USD: scalp #2!''\<rparr> \<and>
   trim ''ETH/USD: scalp #2!'' = ''ETH/USD: scalp #2!'' \<and>
   sublist ''BTC 5 Minute'' ''Load the BTC 5 Minute session''"
proof -
  have "''ETH/USD: scalp #2!'' \<noteq> [] \<and>
      (\<forall>c\<in>set ''ETH/USD: scalp #2!''. \<not> isLineTerminator c) \<and>
      \<not> isWhiteSpace (hd ''ETH/USD: scalp #2!'') \<and> \<not> isWhiteSpace (last ''ETH/USD: scalp #2!'')"
    by (simp add: isLineTerminator_def isWhiteSpace_def)
  moreover have "sessionSwitchMatch ''Load the BTC 5 Minute session'' =
     Some \<lparr>matched = ''Load the BTC 5 Minute session'', group1 = Some ''BTC 5 Minute''\<rparr>"
    by (rule load_btc)
  ultimately show ?thesis
    using load_the_session_name[of "\<lambda>n. Returns" "''ETH/USD: scalp #2!''"
        "''Load the BTC 5 Minute session''"
        "\<lparr>matched = ''Load the BTC 5 Minute session'', group1 = Some ''BTC 5 Minute''\<rparr>"]
    by (simp add: trim_btc)
qed

text \<open>
  Claim C7 as stated fails: the callback is called inside the \<open>try\<close> block, before the
  acknowledgement is built. With a callback that throws, the turn for
  \<open>Load the BTC 5 Minute session\<close> calls it once, appends no acknowledgement and shows the
  toast of a failed turn.
\<close>

theorem throwing_callback_counterexample:
  "handleSendMessage (sample_props (Some (\<lambda>n. Throws))) sample_collaborators
     (typed ''Load the BTC 5 Minute session'') =
   (\<lparr>messages =
       [\<lparr>msg_id = 1000, role = User, content = ''Load the BTC 5 Minute session'',
         timestamp = 1000\<rparr>],
     inputMessage = [], isLoading = False\<rparr>,
    [CallOnSessionSwitch ''BTC 5 Minute'',
     ToastError ''Failed to get Sydney's response'', ConsoleError ''Chat error:''])"
  by (simp add: handleSendMessage_def sample_props_def sample_collaborators_def typed_def
      trim_btc load_btc Let_def caught_def toastText_def)

text \<open>
  Claim C7, amended. When the message matches the pattern and the callback
  \<open>onSessionSwitch\<close> is provided, the callback is called exactly once, with the trimmed
  capture, and the completion backend is not contacted. When the callback returns, the
  transcript gains the user's message and an acknowledgement that contains the name, and
  nothing else happens. When the callback throws, the transcript gains the user's message
  only, and the turn ends with the toast and the log line of a failed turn.
\<close>

theorem session_switch_short_circuits:
  assumes "user co = Some uid" "\<not> isLoading st"
    "sessionSwitchMatch (trim (inputMessage st)) = Some m"
    "onSessionSwitch props = Some callback"
  shows "\<exists>g. group1 m = Some g \<and>
     filter is_switch_call (snd (handleSendMessage props co st)) = [CallOnSessionSwitch (trim g)] \<and>
     filter is_backend_call (snd (handleSendMessage props co st)) = [] \<and>
     (callback (trim g) = Returns \<longrightarrow>
        handleSendMessage props co st =
          (st\<lparr>messages := messages st @
                 [\<lparr>msg_id = now_submit co, role = User,
                   content = trim (inputMessage st), timestamp = now_submit co\<rparr>,
                  \<lparr>msg_id = now_reply co + 1, role = Assistant,
                   content = acknowledgement (trim g), timestamp = now_reply co\<rparr>],
              inputMessage := [], isLoading := False\<rparr>,
           [CallOnSessionSwitch (trim g)]) \<and>
        sublist (trim g) (acknowledgement (trim g))) \<and>
     (callback (trim g) = Throws \<longrightarrow>
        handleSendMessage props co st =
          (st\<lparr>messages := messages st @
                 [\<lparr>msg_id = now_submit co, role = User,
                   content = trim (inputMessage st), timestamp = now_submit co\<rparr>],
              inputMessage := [], isLoading := False\<rparr>,
           [CallOnSessionSwitch (trim g),
            ToastError ''Failed to get Sydney's response'', ConsoleError ''Chat error:'']))"
proof -
  from assms(3) have ne: "trim (inputMessage st) \<noteq> []"
    using sessionSwitchMatch_Nil by auto
  from sessionSwitchMatch_group[OF assms(3)] obtain g where g: "group1 m = Some g" by blast
  note h = handle_switch[OF assms(1,2) ne assms(3) g assms(4)]
  have "sublist (trim g) (acknowledgement (trim g))"
    unfolding acknowledgement_def by (rule sublist_appendI)
  with h g show ?thesis by (cases "callback (trim g)") (simp_all add: toastText_def)
qed

text \<open>
  The turn for \<open>Load the BTC 5 Minute session\<close> with a callback that returns, and the
  effects of the turn with a callback that throws.
\<close>

theorem session_switch_short_circuits_witness:
  \<open>handleSendMessage (sample_props (Some (\<lambda>n. Returns))) sample_collaborators
     (typed ''Load the BTC 5 Minute session'') =
   (\<lparr>messages =
       [\<lparr>msg_id = 1000, role = User, content = ''Load the BTC 5 Minute session'',
         timestamp = 1000\<rparr>,
        \<lparr>msg_id = 2001, role = Assistant,
         content = ''I'll switch you to the "BTC 5 Minute" session. Let me find that for you!'',
         timestamp = 2000\<rparr>],
     inputMessage = [], isLoading = False\<rparr>,
    [CallOnSessionSwitch ''BTC 5 Minute'']) \<and>
   snd (handleSendMessage (sample_props (Some (\<lambda>n. Throws))) sample_collaborators
          (typed ''Load the BTC 5 Minute session'')) =
     [CallOnSessionSwitch ''BTC 5 Minute'',
      ToastError ''Failed to get Sydney's response'', ConsoleError ''Chat error:'']\<close>
proof -
  have u: "user sample_collaborators = Some ''u1''" by (simp add: sample_collaborators_def)
  have l: "\<not> isLoading (typed ''Load the BTC 5 Minute session'')" by (simp add: typed_def)
  have m: "sessionSwitchMatch (trim (inputMessage (typed ''Load the BTC 5 Minute session''))) =
      Some \<lparr>matched = ''Load the BTC 5 Minute session'', group1 = Some ''BTC 5 Minute''\<rparr>"
    by (simp add: typed_def trim_btc load_btc)
  have r: "onSessionSwitch (sample_props (Some (\<lambda>n. Returns))) = Some (\<lambda>n. Returns)"
    by (simp add: sample_props_def)
  have t: "onSessionSwitch (sample_props (Some (\<lambda>n. Throws))) = Some (\<lambda>n. Throws)"
    by (simp add: sample_props_def)
  from session_switch_short_circuits[OF u l m r] session_switch_short_circuits[OF u l m t]
  show ?thesis
    by (simp add: trim_btc typed_def sample_collaborators_def acknowledgement_def)
qed

text \<open>
  Claim C1 as stated fails: for \<open>Can you load my recent trades\<close> the pattern matches
  from \<open>load\<close> on, and with a callback the turn is a session switch to
  \<open>my recent trades\<close>; the completion backend is not asked.
\<close>

theorem mid_sentence_verb_counterexample:
  "handleSendMessage (sample_props (Some (\<lambda>n. Returns))) sample_collaborators
     (typed ''Can you load my recent trades'') =
   (\<lparr>messages =
       [\<lparr>msg_id = 1000, role = User, content = ''Can you load my recent trades'',
         timestamp = 1000\<rparr>,
        \<lparr>msg_id = 2001, role = Assistant,
         content = acknowledgement ''my recent trades'', timestamp = 2000\<rparr>],
     inputMessage = [], isLoading = False\<rparr>,
    [CallOnSessionSwitch ''my recent trades''])"
  by (simp add: handleSendMessage_def sample_props_def sample_collaborators_def typed_def trim1
     load_my_recent_trades Let_def) (simp add: trim_def isWhiteSpace_def)

lemma switch_effects:
  assumes "user co = Some uid" "\<not> isLoading st" "trim (inputMessage st) \<noteq> []"
    "sessionSwitchMatch (trim (inputMessage st)) \<noteq> None"
    "onSessionSwitch props = Some callback"
  shows "filter is_switch_call (snd (handleSendMessage props co st)) \<noteq> [] \<and>
         filter is_backend_call (snd (handleSendMessage props co st)) = []"
proof -
  from assms(4) obtain m where m: "sessionSwitchMatch (trim (inputMessage st)) = Some m" by auto
  from sessionSwitchMatch_group[OF m] obtain g where g: "group1 m = Some g" by blast
  from handle_switch[OF assms(1,2,3) m g assms(5)] show ?thesis
    by (cases "callback (trim g)") simp_all
qed

lemma general_effects:
  assumes "user co = Some uid" "\<not> isLoading st" "trim (inputMessage st) \<noteq> []"
    "sessionSwitchMatch (trim (inputMessage st)) = None \<or> onSessionSwitch props = None"
  shows "filter is_switch_call (snd (handleSendMessage props co st)) = [] \<and>
         filter is_backend_call (snd (handleSendMessage props co st)) =
           [CallSendChatMessage (trim (inputMessage st)) uid (currentSessionId props)]"
  using handle_general[OF assms]
  by (cases "sendChatMessage co (trim (inputMessage st)) uid (currentSessionId props)") simp_all

text \<open>
  Claim C1, amended. The pattern is anchored at the end of the message only, and a verb in
  the middle of a sentence does start a match. With the callback provided, a turn takes the
  session-switch branch whenever somewhere in the message a switch verb (in any letter
  case) is followed by a white space character and a non-empty rest of the message without
  line terminators; it asks the completion backend, as for a general query, whenever no
  switch verb in the message is followed by white space and a non-empty rest.
\<close>

theorem switch_intent_shape:
  assumes "user co = Some uid" "\<not> isLoading st" "trim (inputMessage st) \<noteq> []"
    "onSessionSwitch props = Some callback"
  shows
    "((\<exists>pre v w n. trim (inputMessage st) = pre @ v @ w # n \<and> is_switch_verb v \<and>
          isWhiteSpace w \<and> n \<noteq> [] \<and> (\<forall>c\<in>set n. \<not> isLineTerminator c)) \<longrightarrow>
        filter is_switch_call (snd (handleSendMessage props co st)) \<noteq> [] \<and>
        filter is_backend_call (snd (handleSendMessage props co st)) = []) \<and>
     (\<not> (\<exists>pre v w n. trim (inputMessage st) = pre @ v @ w # n \<and> is_switch_verb v \<and>
          isWhiteSpace w \<and> n \<noteq> []) \<longrightarrow>
        filter is_switch_call (snd (handleSendMessage props co st)) = [] \<and>
        filter is_backend_call (snd (handleSendMessage props co st)) \<noteq> [])"
proof (intro conjI impI)
  assume "\<exists>pre v w n. trim (inputMessage st) = pre @ v @ w # n \<and> is_switch_verb v \<and>
          isWhiteSpace w \<and> n \<noteq> [] \<and> (\<forall>c\<in>set n. \<not> isLineTerminator c)"
  then have m: "sessionSwitchMatch (trim (inputMessage st)) \<noteq> None"
    using sessionSwitchMatch_found by metis
  from switch_effects[OF assms(1,2,3) m assms(4)]
  show "filter is_switch_call (snd (handleSendMessage props co st)) \<noteq> []"
    and "filter is_backend_call (snd (handleSendMessage props co st)) = []" by simp_all
next
  assume "\<not> (\<exists>pre v w n. trim (inputMessage st) = pre @ v @ w # n \<and> is_switch_verb v \<and>
          isWhiteSpace w \<and> n \<noteq> [])"
  then have "sessionSwitchMatch (trim (inputMessage st)) = None"
    using sessionSwitchMatch_shape by blast
  then have "sessionSwitchMatch (trim (inputMessage st)) = None \<or> onSessionSwitch props = None" ..
  from general_effects[OF assms(1,2,3) this]
  show "filter is_switch_call (snd (handleSendMessage props co st)) = []"
    and "filter is_backend_call (snd (handleSendMessage props co st)) \<noteq> []" by simp_all
qed

lemma summarize_no_match: "sessionSwitchMatch ''Summarize my trades this week'' = None"
  by (simp add: match_eval)

lemma trim_more:
  "trim ''Summarize my trades this week'' = ''Summarize my trades this week''"
  "trim ''please open the BTC 5 Minute session'' = ''please open the BTC 5 Minute session''"
  by (simp_all add: trim_def isWhiteSpace_def)

text \<open>
  A verb in the middle of a sentence switches the session; a message without a switch verb
  goes to the backend.
\<close>

theorem switch_intent_shape_witness:
  "filter is_switch_call (snd (handleSendMessage (sample_props (Some (\<lambda>n. Returns)))
      sample_collaborators (typed ''please open the BTC 5 Minute session''))) \<noteq> [] \<and>
   filter is_backend_call (snd (handleSendMessage (sample_props (Some (\<lambda>n. Returns)))
      sample_collaborators (typed ''please open the BTC 5 Minute session''))) = [] \<and>
   filter is_switch_call (snd (handleSendMessage (sample_props (Some (\<lambda>n. Returns)))
      sample_collaborators (typed ''Summarize my trades this week''))) = [] \<and>
   filter is_backend_call (snd (handleSendMessage (sample_props (Some (\<lambda>n. Returns)))
      sample_collaborators (typed ''Summarize my trades this week''))) \<noteq> []"
proof -
  let ?props = "sample_props (Some (\<lambda>n. Returns))"
  have u: "user sample_collaborators = Some ''u1''" by (simp add: sample_collaborators_def)
  have c: "onSessionSwitch ?props = Some (\<lambda>n. Returns)" by (simp add: sample_props_def)
  let ?a = "typed ''please open the BTC 5 Minute session''"
  have a1: "\<not> isLoading ?a" "trim (inputMessage ?a) \<noteq> []" by (simp_all add: typed_def trim_more)
  have "trim (inputMessage ?a) = ''please '' @ ''open'' @ CHR '' '' # ''the BTC 5 Minute session'' \<and>
      is_switch_verb ''open'' \<and> isWhiteSpace CHR '' '' \<and> ''the BTC 5 Minute session'' \<noteq> [] \<and>
      (\<forall>c\<in>set ''the BTC 5 Minute session''. \<not> isLineTerminator c)"
    by (simp add: typed_def trim_more is_switch_verb_def isWhiteSpace_def isLineTerminator_def)
  then have a2: "\<exists>pre v w n. trim (inputMessage ?a) = pre @ v @ w # n \<and> is_switch_verb v \<and>
          isWhiteSpace w \<and> n \<noteq> [] \<and> (\<forall>c\<in>set n. \<not> isLineTerminator c)" by blast
  let ?b = "typed ''Summarize my trades this week''"
  have b1: "\<not> isLoading ?b" "trim (inputMessage ?b) \<noteq> []" by (simp_all add: typed_def trim_more)
  have all: "\<forall>c\<in>set (trim (inputMessage ?b)). \<not> isLineTerminator c"
    by (simp add: typed_def trim_more isLineTerminator_def)
  have b2: "\<not> (\<exists>pre v w n. trim (inputMessage ?b) = pre @ v @ w # n \<and> is_switch_verb v \<and>
          isWhiteSpace w \<and> n \<noteq> [])"
  proof
    assume "\<exists>pre v w n. trim (inputMessage ?b) = pre @ v @ w # n \<and> is_switch_verb v \<and>
          isWhiteSpace w \<and> n \<noteq> []"
    then obtain pre v w n where d: "trim (inputMessage ?b) = pre @ v @ w # n" "is_switch_verb v"
      "isWhiteSpace w" "n \<noteq> []" by blast
    from all d(1) have "\<forall>c\<in>set n. \<not> isLineTerminator c" by simp
    from sessionSwitchMatch_found[OF d(2,3,4) this, of pre]
    have "sessionSwitchMatch (trim (inputMessage ?b)) \<noteq> None" unfolding d(1) .
    then show False by (simp add: typed_def trim_more summarize_no_match)
  qed
  from switch_intent_shape[OF u a1 c] a2 switch_intent_shape[OF u b1 c] b2
  show ?thesis by blast
qed

text \<open>
  Claim C10. Without the callback \<open>onSessionSwitch\<close> a turn is an ordinary general query,
  whether or not the message matches the pattern: the trimmed message is sent to the
  completion backend, the callback's place stays empty, and the assistant's message, if
  any, is the reply of the backend.
\<close>

theorem without_callback_general_query:
  assumes "user co = Some uid" "\<not> isLoading st" "trim (inputMessage st) \<noteq> []"
    "onSessionSwitch props = None"
  shows "handleSendMessage props co st =
     (case sendChatMessage co (trim (inputMessage st)) uid (currentSessionId props) of
        Rejected \<Rightarrow>
          (st\<lparr>messages := messages st @ [\<lparr>msg_id = now_submit co, role = User,
                               content = trim (inputMessage st), timestamp = now_submit co\<rparr>],
              inputMessage := [], isLoading := False\<rparr>,
           [CallSendChatMessage (trim (inputMessage st)) uid (currentSessionId props),
            ToastError toastText, ConsoleError ''Chat error:''])
      | Resolved aiResponse \<Rightarrow>
          (st\<lparr>messages := messages st @
                 [\<lparr>msg_id = now_submit co, role = User,
                               content = trim (inputMessage st), timestamp = now_submit co\<rparr>,
                  \<lparr>msg_id = now_reply co + 1, role = Assistant,
                    content = aiResponse, timestamp = now_reply co\<rparr>],
              inputMessage := [], isLoading := False\<rparr>,
           [CallSendChatMessage (trim (inputMessage st)) uid (currentSessionId props)])) \<and>
     filter is_switch_call (snd (handleSendMessage props co st)) = [] \<and>
     filter is_backend_call (snd (handleSendMessage props co st)) =
       [CallSendChatMessage (trim (inputMessage st)) uid (currentSessionId props)]"
proof -
  from assms(4) have
    "sessionSwitchMatch (trim (inputMessage st)) = None \<or> onSessionSwitch props = None" ..
  from handle_general[OF assms(1,2,3) this] general_effects[OF assms(1,2,3) this]
  show ?thesis by blast
qed

text \<open>
  The message \<open>Load the BTC 5 Minute session\<close>, which matches the pattern, in a widget
  without the callback.
\<close>

theorem without_callback_general_query_witness:
  "sessionSwitchMatch ''Load the BTC 5 Minute session'' \<noteq> None \<and>
   handleSendMessage (sample_props None) sample_collaborators
     (typed ''Load the BTC 5 Minute session'') =
   (\<lparr>messages =
       [\<lparr>msg_id = 1000, role = User, content = ''Load the BTC 5 Minute session'',
         timestamp = 1000\<rparr>,
        \<lparr>msg_id = 2001, role = Assistant, content = ''Hello'', timestamp = 2000\<rparr>],
     inputMessage = [], isLoading = False\<rparr>,
    [CallSendChatMessage ''Load the BTC 5 Minute session'' ''u1'' (Some ''s1'')])"
proof -
  have "user sample_collaborators = Some ''u1''" by (simp add: sample_collaborators_def)
  moreover have "\<not> isLoading (typed ''Load the BTC 5 Minute session'')" by (simp add: typed_def)
  moreover have "trim (inputMessage (typed ''Load the BTC 5 Minute session'')) \<noteq> []"
    by (simp add: typed_def trim_btc)
  moreover have "onSessionSwitch (sample_props None) = None" by (simp add: sample_props_def)
  ultimately show ?thesis
    using without_callback_general_query[of sample_collaborators "''u1''"
        "typed ''Load the BTC 5 Minute session''" "sample_props None"]
    by (simp add: trim_btc typed_def sample_collaborators_def sample_props_def load_btc)
qed

section \<open>Statistics of a trade sequence\<close>

lemma js_div_zero_zero: "js_div 0 0 = NaN"
  by (simp add: js_div_def)

lemma winning_losing_le:
  "length (filter (\<lambda>t. 0 < profit_loss t) ts) + length (filter (\<lambda>t. profit_loss t < 0) ts)
     \<le> length ts"
  by (induction ts) auto

lemma winRate_value:
  "totalTrades trades \<noteq> 0 \<Longrightarrow>
     winRate trades = Finite (of_nat (winningTrades trades) / of_nat (totalTrades trades) * 100)"
  by (simp add: winRate_def js_div_def)

lemma rounded_rate_bounds:
  fixes rnd :: "rat \<Rightarrow> rat"
  assumes "mono rnd" "rnd 0 = 0" "rnd 1 = 1" "rnd 100 = 100" "w \<le> n" "0 < n"
  shows "0 \<le> rnd (rnd (of_nat w / of_nat n) * 100) \<and>
         rnd (rnd (of_nat w / of_nat n) * 100) \<le> 100"
proof -
  let ?q = "of_nat w / of_nat n :: rat"
  have a: "0 \<le> ?q" by simp
  from assms(5) have "(of_nat w :: rat) \<le> of_nat n" by simp
  moreover from assms(6) have "(0::rat) < of_nat n" by simp
  ultimately have b: "?q \<le> 1" by (simp add: divide_le_eq)
  from monoD[OF assms(1) a] assms(2) have q0: "0 \<le> rnd ?q" by simp
  from monoD[OF assms(1) b] assms(3) have q1: "rnd ?q \<le> 1" by simp
  from q0 have c: "0 \<le> rnd ?q * 100" by simp
  from q1 have d: "rnd ?q * 100 \<le> 100" by simp
  from monoD[OF assms(1) c] assms(2) have "0 \<le> rnd (rnd ?q * 100)" by simp
  moreover from monoD[OF assms(1) d] assms(4) have "rnd (rnd ?q * 100) \<le> 100" by simp
  ultimately show ?thesis ..
qed

lemmas stats_defs = totalTrades_def totalProfit_def winningTrades_def losingTrades_def
  winRate_def totalMargin_def avgROI_def js_div_def three_trades_def sample_trade_def

text \<open>
  Claim C4. For every sequence of trades (and for the \<open>null\<close> that the query may give),
  the winning and the losing trades together are at most all trades, and the win rate is
  a finite number between 0 and 100. A trade whose profit or loss is exactly 0 adds one to
  the total and nothing to the winning or to the losing trades. The bounds of the win rate
  do not rest on exact arithmetic: they hold as well when the quotient and the product
  are rounded by any monotone rounding that leaves 0, 1 and 100 as they are.
\<close>

theorem statistics_bounds:
  "winningTrades trades + losingTrades trades \<le> totalTrades trades \<and>
   (\<exists>r. winRate trades = Finite r \<and> 0 \<le> r \<and> r \<le> 100) \<and>
   (profit_loss t = 0 \<longrightarrow>
      totalTrades (Some (t # ts)) = Suc (totalTrades (Some ts)) \<and>
      winningTrades (Some (t # ts)) = winningTrades (Some ts) \<and>
      losingTrades (Some (t # ts)) = losingTrades (Some ts)) \<and>
   (mono rnd \<and> rnd 0 = 0 \<and> rnd 1 = 1 \<and> rnd 100 = 100 \<and> totalTrades trades \<noteq> 0 \<longrightarrow>
      0 \<le> rnd (rnd (of_nat (winningTrades trades) / of_nat (totalTrades trades)) * 100) \<and>
      rnd (rnd (of_nat (winningTrades trades) / of_nat (totalTrades trades)) * 100)
        \<le> (100 :: rat))"
proof -
  have le: "winningTrades trades + losingTrades trades \<le> totalTrades trades"
    by (cases trades)
      (simp_all add: winningTrades_def losingTrades_def totalTrades_def winning_losing_le)
  have rate: "\<exists>r. winRate trades = Finite r \<and> 0 \<le> r \<and> r \<le> 100"
  proof (cases "totalTrades trades = 0")
    case True
    then show ?thesis by (simp add: winRate_def)
  next
    case False
    let ?w = "of_nat (winningTrades trades) :: rat" and ?n = "of_nat (totalTrades trades) :: rat"
    from le have "winningTrades trades \<le> totalTrades trades" by simp
    then have "?w \<le> ?n" by simp
    moreover from False have "0 < ?n" by simp
    ultimately have "?w / ?n \<le> 1" by (simp add: divide_le_eq)
    then have "?w / ?n * 100 \<le> 100" using mult_right_mono[of "?w / ?n" 1 100] by simp
    moreover have "0 \<le> ?w / ?n * 100" by simp
    ultimately show ?thesis using winRate_value[OF False] by blast
  qed
  have zero: "profit_loss t = 0 \<longrightarrow>
      totalTrades (Some (t # ts)) = Suc (totalTrades (Some ts)) \<and>
      winningTrades (Some (t # ts)) = winningTrades (Some ts) \<and>
      losingTrades (Some (t # ts)) = losingTrades (Some ts)"
    by (simp add: winningTrades_def losingTrades_def totalTrades_def)
  have rounded: "mono rnd \<and> rnd 0 = 0 \<and> rnd 1 = 1 \<and> rnd 100 = 100 \<and> totalTrades trades \<noteq> 0 \<longrightarrow>
      0 \<le> rnd (rnd (of_nat (winningTrades trades) / of_nat (totalTrades trades)) * 100) \<and>
      rnd (rnd (of_nat (winningTrades trades) / of_nat (totalTrades trades)) * 100) \<le> 100"
  proof
    assume h: "mono rnd \<and> rnd 0 = 0 \<and> rnd 1 = 1 \<and> rnd 100 = 100 \<and> totalTrades trades \<noteq> 0"
    from le have "winningTrades trades \<le> totalTrades trades" by simp
    moreover from h have "0 < totalTrades trades" by simp
    ultimately show "0 \<le> rnd (rnd (of_nat (winningTrades trades) / of_nat (totalTrades trades)) * 100) \<and>
      rnd (rnd (of_nat (winningTrades trades) / of_nat (totalTrades trades)) * 100) \<le> 100"
      using h by (intro rounded_rate_bounds) simp_all
  qed
  from le rate zero rounded show ?thesis by blast
qed

text \<open>
  The statistics of three trades with the profits and losses 100, -50 and 0: one wins, one
  loses, and the win rate is a third of a hundred.
\<close>

theorem statistics_bounds_witness:
  "profit_loss (sample_trade ''t3'' ''s1'' 0 1) = 0 \<and>
   winningTrades (Some three_trades) + losingTrades (Some three_trades)
     \<le> totalTrades (Some three_trades) \<and>
   totalTrades (Some three_trades) = 3 \<and> totalProfit (Some three_trades) = 50 \<and>
   winningTrades (Some three_trades) = 1 \<and> losingTrades (Some three_trades) = 1 \<and>
   winRate (Some three_trades) = Finite (100 / 3) \<and>
   mono (\<lambda>x :: rat. x) \<and> totalTrades (Some three_trades) \<noteq> 0"
  using statistics_bounds[of "Some three_trades" "sample_trade ''t3'' ''s1'' 0 1" "[]"
      "\<lambda>x. x"]
  by (simp add: stats_defs mono_def)

text \<open>
  Claim C5. The statistics of the empty trade sequence are all zero. The win rate and the
  average return are the number 0 of the branch for a zero count: the quotient of the two
  zero counts, which that branch avoids, is \<open>NaN\<close>.
\<close>

theorem aggregate_empty:
  "totalTrades (Some ([] :: Trade list)) = 0 \<and>
   totalProfit (Some ([] :: Trade list)) = 0 \<and>
   winningTrades (Some ([] :: Trade list)) = 0 \<and>
   losingTrades (Some ([] :: Trade list)) = 0 \<and>
   winRate (Some ([] :: Trade list)) = Finite 0 \<and>
   totalMargin (Some ([] :: Trade list)) = 0 \<and>
   avgROI (Some ([] :: Trade list)) = Finite 0 \<and>
   js_div (of_nat (winningTrades (Some ([] :: Trade list))))
          (of_nat (totalTrades (Some ([] :: Trade list)))) = NaN"
  by (simp add: totalTrades_def totalProfit_def winningTrades_def losingTrades_def winRate_def
      totalMargin_def avgROI_def js_div_def)

section \<open>The store and the prompt of the chat endpoint\<close>

lemmas sample_defs = sample_environment_def sample_store_def sample_session_def sample_trade_def
  sample_chat_request_def sample_summary_request_def sample_answer_def

lemma sample_sessions_eval:
  "map ts_id (order_desc ts_created_at (filter (\<lambda>s. user_id s = ''u1'')
      (trading_sessions_table sample_store))) = [''s6'', ''s5'', ''s4'', ''s3'', ''s2'', ''s1'']"
  by (simp add: sample_defs order_desc_def)

lemma sample_trades_eval:
  "map trade_id (order_desc created_at (List.map_filter
      (join_session (trading_sessions_table sample_store) ''u1'') (trades_table sample_store))) =
   [''t11'', ''t10'', ''t09'', ''t08'', ''t07'', ''t06'', ''t05'', ''t04'', ''t03'', ''t02'', ''t01'']"
  by (simp add: sample_defs order_desc_def List.map_filter_def join_session_def
      Trade.extend_def TradeRow.fields_def)

lemma interpolated_chat:
  "interpolated (chat_systemPrompt sessions trades t) =
     [NatText (case sessions of None \<Rightarrow> 0 | Some ss \<Rightarrow> length ss),
      NatText (case trades of None \<Rightarrow> 0 | Some ts \<Rightarrow> length ts),
      Fixed (Finite (totalProfit trades)) 2, Fixed (winRate trades) 1,
      NatText (winningTrades trades), NatText (losingTrades trades),
      Json (case sessions of None \<Rightarrow> JUndefined | Some ss \<Rightarrow> JSessions (take 5 ss)),
      Json (case trades of None \<Rightarrow> JUndefined | Some ts \<Rightarrow> JTradeRows (take 10 ts)),
      LocaleDate t]"
  by (simp add: interpolated_def chat_systemPrompt_def chat_tradingContext_def Let_def)

lemma sent_completion: "sent (completion env err request fallback) = [request]"
  by (simp add: completion_def failure_def success_def split: fetched.split)

text \<open>
  The rows of the trades query are the trades of the user's sessions, and the ordered list
  has the newest rows first.
\<close>

lemma truncate_extend: "Trade.truncate (Trade.extend t e) = t"
  by (cases t) (simp add: Trade.truncate_def Trade.extend_def)

lemma join_session_cases:
  "join_session ss uid t =
     (if owned_by ss uid t
      then Some (Trade.extend t (TradeRow.fields (name (the (find (\<lambda>s. ts_id s = session_id t) ss)), uid)))
      else None)"
  by (simp add: join_session_def owned_by_def split: option.split)

lemma map_filter_join:
  "map Trade.truncate (List.map_filter (join_session ss uid) ts) = filter (owned_by ss uid) ts"
  by (induction ts) (simp_all add: List.map_filter_simps join_session_cases truncate_extend)

lemma order_desc_set: "set (order_desc k xs) = set xs"
  by (simp add: order_desc_def)

lemma order_desc_length: "length (order_desc k xs) = length xs"
  by (simp add: order_desc_def)

lemma order_desc_sorted: "sorted_wrt (\<lambda>a b. k b \<le> k a) (order_desc k xs)"
proof -
  have "sorted (map (\<lambda>r. - k r) (order_desc k xs))"
    unfolding order_desc_def by (rule sorted_sort_key)
  then show ?thesis by (simp add: sorted_map)
qed

lemma order_desc_take_drop:
  assumes "a \<in> set (take n (order_desc k xs))" "b \<in> set (drop n (order_desc k xs))"
  shows "k b \<le> k a"
proof -
  have "sorted_wrt (\<lambda>a b. k b \<le> k a) (take n (order_desc k xs) @ drop n (order_desc k xs))"
    using order_desc_sorted[of k xs] by simp
  with assms show ?thesis unfolding sorted_wrt_append by blast
qed

lemma chat_handler_completion:
  assumes "http_method req \<noteq> ''OPTIONS''"
    "sessionsFailure (supabaseClient env) = None" "tradesFailure (supabaseClient env) = None"
    "OPENAI_API_KEY env = Some key" "key \<noteq> []"
  shows "chat_handler env req =
     completion env chat_error
       (chat_request key
          (chat_systemPrompt
             (Some (order_desc ts_created_at
                (filter (\<lambda>s. user_id s = userId (json_body req))
                   (trading_sessions_table (tables (supabaseClient env))))))
             (Some (order_desc created_at
                (List.map_filter
                   (join_session (trading_sessions_table (tables (supabaseClient env)))
                      (userId (json_body req)))
                   (trades_table (tables (supabaseClient env))))))
             (clock env))
          (message (json_body req)))
       ''Sorry, I could not process your request.''"
  using assms
  by (simp add: chat_handler_def select_sessions_of_user_def select_trades_of_user_def Let_def)

text \<open>
  Claim C2. When the store answers and the credential is configured, the chat endpoint
  sends one request whose system prompt interpolates, in this order: the number of the
  user's sessions and of the user's trades, the total profit, the win rate and the numbers
  of winning and losing trades, all computed over the whole list \<open>T\<close> of the user's trades;
  then the first five sessions and the first ten trades of the lists ordered by
  \<open>created_at\<close>, newest first, so that nothing left out is newer than anything shown. \<open>S\<close>
  and \<open>T\<close> hold every session of the user and one row for each trade of a session of the
  user.
\<close>

theorem chat_context_truncated_statistics_full:
  assumes "http_method req \<noteq> ''OPTIONS''"
    "sessionsFailure (supabaseClient env) = None" "tradesFailure (supabaseClient env) = None"
    "OPENAI_API_KEY env = Some key" "key \<noteq> []"
    "S = order_desc ts_created_at
           (filter (\<lambda>s. user_id s = userId (json_body req))
              (trading_sessions_table (tables (supabaseClient env))))"
    "T = order_desc created_at
           (List.map_filter
              (join_session (trading_sessions_table (tables (supabaseClient env)))
                 (userId (json_body req)))
              (trades_table (tables (supabaseClient env))))"
  shows
    "(\<exists>prompt.
        sent (chat_handler env req) = [chat_request key prompt (message (json_body req))] \<and>
        interpolated prompt =
          [NatText (length S), NatText (length T),
           Fixed (Finite (totalProfit (Some T))) 2, Fixed (winRate (Some T)) 1,
           NatText (winningTrades (Some T)), NatText (losingTrades (Some T)),
           Json (JSessions (take 5 S)), Json (JTradeRows (take 10 T)),
           LocaleDate (clock env)]) \<and>
     length (take 5 S) \<le> 5 \<and> length (take 10 T) \<le> 10 \<and>
     sorted_wrt (\<lambda>a b. ts_created_at b \<le> ts_created_at a) (take 5 S) \<and>
     sorted_wrt (\<lambda>a b. created_at b \<le> created_at a) (take 10 T) \<and>
     (\<forall>a\<in>set (take 5 S). \<forall>b\<in>set (drop 5 S). ts_created_at b \<le> ts_created_at a) \<and>
     (\<forall>a\<in>set (take 10 T). \<forall>b\<in>set (drop 10 T). created_at b \<le> created_at a) \<and>
     set S = {s \<in> set (trading_sessions_table (tables (supabaseClient env))).
                user_id s = userId (json_body req)} \<and>
     totalTrades (Some T) = length T \<and>
     length T = length (filter (owned_by (trading_sessions_table (tables (supabaseClient env)))
                                  (userId (json_body req)))
                          (trades_table (tables (supabaseClient env)))) \<and>
     set (map Trade.truncate T) =
       {t \<in> set (trades_table (tables (supabaseClient env))).
          owned_by (trading_sessions_table (tables (supabaseClient env)))
            (userId (json_body req)) t}"
proof -
  let ?prompt = "chat_systemPrompt (Some S) (Some T) (clock env)"
  have h: "chat_handler env req =
      completion env chat_error (chat_request key ?prompt (message (json_body req)))
        ''Sorry, I could not process your request.''"
    unfolding assms(6,7) by (rule chat_handler_completion[OF assms(1-5)])
  have 1: "\<exists>prompt.
        sent (chat_handler env req) = [chat_request key prompt (message (json_body req))] \<and>
        interpolated prompt =
          [NatText (length S), NatText (length T),
           Fixed (Finite (totalProfit (Some T))) 2, Fixed (winRate (Some T)) 1,
           NatText (winningTrades (Some T)), NatText (losingTrades (Some T)),
           Json (JSessions (take 5 S)), Json (JTradeRows (take 10 T)),
           LocaleDate (clock env)]"
    by (intro exI[of _ ?prompt]) (simp add: h sent_completion interpolated_chat)
  have 2: "length (take 5 S) \<le> 5" "length (take 10 T) \<le> 10" by simp_all
  have 3: "sorted_wrt (\<lambda>a b. ts_created_at b \<le> ts_created_at a) (take 5 S)"
    "sorted_wrt (\<lambda>a b. created_at b \<le> created_at a) (take 10 T)"
    unfolding assms(6,7) by (rule sorted_wrt_take, rule order_desc_sorted)+
  have 4: "\<forall>a\<in>set (take 5 S). \<forall>b\<in>set (drop 5 S). ts_created_at b \<le> ts_created_at a"
    unfolding assms(6) using order_desc_take_drop[of _ 5 ts_created_at] by blast
  have d4: "\<forall>a\<in>set (take 10 T). \<forall>b\<in>set (drop 10 T). created_at b \<le> created_at a"
    unfolding assms(7) using order_desc_take_drop[of _ 10 created_at] by blast
  have 5: "set S = {s \<in> set (trading_sessions_table (tables (supabaseClient env))).
                user_id s = userId (json_body req)}"
    unfolding assms(6) by (simp add: order_desc_set)
  have 6: "totalTrades (Some T) = length T" by (simp add: totalTrades_def)
  have "length T = length (map Trade.truncate (List.map_filter
              (join_session (trading_sessions_table (tables (supabaseClient env)))
                 (userId (json_body req)))
              (trades_table (tables (supabaseClient env)))))"
    unfolding assms(7) by (simp add: order_desc_length)
  then have 7: "length T = length (filter (owned_by (trading_sessions_table (tables (supabaseClient env)))
                                  (userId (json_body req)))
                          (trades_table (tables (supabaseClient env))))"
    unfolding map_filter_join .
  have "set (map Trade.truncate T) = set (map Trade.truncate (List.map_filter
              (join_session (trading_sessions_table (tables (supabaseClient env)))
                 (userId (json_body req)))
              (trades_table (tables (supabaseClient env)))))"
    unfolding assms(7) by (simp add: order_desc_set)
  then have 8: "set (map Trade.truncate T) =
       {t \<in> set (trades_table (tables (supabaseClient env))).
          owned_by (trading_sessions_table (tables (supabaseClient env)))
            (userId (json_body req)) t}"
    unfolding map_filter_join by simp
  from 1 2 3 4 d4 5 6 7 8 show ?thesis by blast
qed

lemma sample_sessions_list:
  "order_desc ts_created_at (filter (\<lambda>s. user_id s = ''u1'')
      (trading_sessions_table sample_store)) =
   [sample_session ''s6'' ''u1'' 6, sample_session ''s5'' ''u1'' 5, sample_session ''s4'' ''u1'' 4,
    sample_session ''s3'' ''u1'' 3, sample_session ''s2'' ''u1'' 2, sample_session ''s1'' ''u1'' 1]"
  by (simp add: sample_store_def sample_session_def order_desc_def)

lemma sample_stats:
  "totalProfit (Some (order_desc created_at (List.map_filter
      (join_session (trading_sessions_table sample_store) ''u1'') (trades_table sample_store)))) = 125"
  "winRate (Some (order_desc created_at (List.map_filter
      (join_session (trading_sessions_table sample_store) ''u1'') (trades_table sample_store)))) =
     Finite (600 / 11)"
  "winningTrades (Some (order_desc created_at (List.map_filter
      (join_session (trading_sessions_table sample_store) ''u1'') (trades_table sample_store)))) = 6"
  "losingTrades (Some (order_desc created_at (List.map_filter
      (join_session (trading_sessions_table sample_store) ''u1'') (trades_table sample_store)))) = 4"
  by (simp_all add: sample_defs order_desc_def List.map_filter_def join_session_def
      Trade.extend_def TradeRow.fields_def totalProfit_def winRate_def winningTrades_def
      losingTrades_def totalTrades_def js_div_def)

text \<open>
  A user with six sessions and eleven trades: the prompt shows five sessions and ten
  trades, and its statistics count all eleven trades.
\<close>

theorem chat_context_truncated_statistics_full_witness:
  "\<exists>prompt ss ts.
     sent (chat_handler (sample_environment (Some ''sk'')) (sample_chat_request None)) =
       [chat_request ''sk'' prompt ''How am I doing?''] \<and>
     interpolated prompt =
       [NatText 6, NatText 11, Fixed (Finite 125) 2, Fixed (Finite (600 / 11)) 1,
        NatText 6, NatText 4, Json (JSessions ss), Json (JTradeRows ts), LocaleDate 100] \<and>
     map ts_id ss = [''s6'', ''s5'', ''s4'', ''s3'', ''s2''] \<and>
     map trade_id ts =
       [''t11'', ''t10'', ''t09'', ''t08'', ''t07'', ''t06'', ''t05'', ''t04'', ''t03'', ''t02'']"
proof -
  let ?env = "sample_environment (Some ''sk'')" and ?req = "sample_chat_request None"
  let ?S = "order_desc ts_created_at (filter (\<lambda>s. user_id s = ''u1'')
      (trading_sessions_table sample_store))"
  let ?T = "order_desc created_at (List.map_filter
      (join_session (trading_sessions_table sample_store) ''u1'') (trades_table sample_store))"
  have 1: "http_method ?req \<noteq> ''OPTIONS''" by (simp add: sample_chat_request_def)
  have 2: "sessionsFailure (supabaseClient ?env) = None" "tradesFailure (supabaseClient ?env) = None"
    "OPENAI_API_KEY ?env = Some ''sk''" "''sk'' \<noteq> []"
    by (simp_all add: sample_environment_def)
  have 3: "?S = order_desc ts_created_at
           (filter (\<lambda>s. user_id s = userId (json_body ?req))
              (trading_sessions_table (tables (supabaseClient ?env))))"
    "?T = order_desc created_at
           (List.map_filter
              (join_session (trading_sessions_table (tables (supabaseClient ?env)))
                 (userId (json_body ?req)))
              (trades_table (tables (supabaseClient ?env))))"
    by (simp_all add: sample_environment_def sample_chat_request_def)
  from chat_context_truncated_statistics_full[OF 1 2 3]
  obtain prompt where p:
    "sent (chat_handler ?env ?req) = [chat_request ''sk'' prompt (message (json_body ?req))]"
    "interpolated prompt =
          [NatText (length ?S), NatText (length ?T),
           Fixed (Finite (totalProfit (Some ?T))) 2, Fixed (winRate (Some ?T)) 1,
           NatText (winningTrades (Some ?T)), NatText (losingTrades (Some ?T)),
           Json (JSessions (take 5 ?S)), Json (JTradeRows (take 10 ?T)),
           LocaleDate (clock ?env)]"
    by blast
  have m: "message (json_body ?req) = ''How am I doing?''" "clock ?env = 100"
    by (simp_all add: sample_chat_request_def sample_environment_def)
  have l: "length ?S = 6" "length ?T = 11"
    using arg_cong[OF sample_sessions_eval, of length] arg_cong[OF sample_trades_eval, of length]
    by simp_all
  have i: "map ts_id (take 5 ?S) = [''s6'', ''s5'', ''s4'', ''s3'', ''s2'']"
    "map trade_id (take 10 ?T) =
       [''t11'', ''t10'', ''t09'', ''t08'', ''t07'', ''t06'', ''t05'', ''t04'', ''t03'', ''t02'']"
    using arg_cong[OF sample_sessions_eval, of "take 5"] arg_cong[OF sample_trades_eval, of "take 10"]
    by (simp_all add: take_map)
  note a = p(1)[unfolded m] and b = p(2)[unfolded m l sample_stats]
  show ?thesis
    by (rule exI[of _ prompt], rule exI[of _ "take 5 ?S"], rule exI[of _ "take 10 ?T"])
      (intro conjI a b i)
qed

section \<open>Requests to the completion backend\<close>

lemma chat_handler_sent:
  "r \<in> set (sent (chat_handler env req)) \<Longrightarrow> \<exists>k p m. r = chat_request k p m"
  by (auto simp add: chat_handler_def preflight_def failure_def sent_completion Let_def
      split: option.splits if_splits)

lemma summary_handler_sent:
  "r \<in> set (sent (summary_handler env req)) \<Longrightarrow> \<exists>k p. r = summary_request k p"
  by (auto simp add: summary_handler_def preflight_def failure_def sent_completion Let_def
      split: option.splits if_splits)

text \<open>
  Claim C3 as stated fails: the budget of a chat request is not below the budget of a
  summary request.
\<close>

theorem token_budget_counterexample:
  "\<not> (max_tokens (chat_request ''sk'' [] ''hi'') < max_tokens (summary_request ''sk'' []))"
  by (simp add: chat_request_def summary_request_def)

text \<open>
  Claim C3, amended. Every request of the summary endpoint has a budget of 800 tokens and
  every request of the chat endpoint one of 1000: the summary's budget is the smaller one.
\<close>

theorem summary_budget_smaller:
  "(\<forall>r\<in>set (sent (summary_handler env sreq)). max_tokens r = 800) \<and>
   (\<forall>r\<in>set (sent (chat_handler env' creq)). max_tokens r = 1000) \<and>
   (\<forall>r\<in>set (sent (summary_handler env sreq)). \<forall>r'\<in>set (sent (chat_handler env' creq)).
      max_tokens r < max_tokens r')"
proof -
  have s: "\<forall>r\<in>set (sent (summary_handler env sreq)). max_tokens r = 800"
    using summary_handler_sent by (fastforce simp: summary_request_def)
  have c: "\<forall>r\<in>set (sent (chat_handler env' creq)). max_tokens r = 1000"
    using chat_handler_sent by (fastforce simp: chat_request_def)
  from s c show ?thesis by simp
qed

lemma sample_single_session:
  "select_single_session (supabaseClient (sample_environment key)) ''s1'' ''u1'' =
     \<lparr>data = Some (sample_session ''s1'' ''u1'' 1), error = None\<rparr>"
  by (simp add: select_single_session_def sample_environment_def sample_store_def
      sample_session_def)

lemma sample_summary_sent:
  "sent (summary_handler (sample_environment (Some ''sk'')) sample_summary_request) =
     [summary_request ''sk''
        (summary_systemPrompt (sample_session ''s1'' ''u1'' 1)
           (data (select_trades_of_session (supabaseClient (sample_environment (Some ''sk''))) ''s1'')))]"
  by (simp add: summary_handler_def sample_summary_request_def Let_def sent_completion
      sample_environment_def select_trades_of_session_def select_single_session_def
      sample_store_def sample_session_def)

lemma sample_chat_sent:
  "\<exists>p. sent (chat_handler (sample_environment (Some ''sk'')) (sample_chat_request sid)) =
     [chat_request ''sk'' p ''How am I doing?'']"
proof -
  let ?env = "sample_environment (Some ''sk'')" and ?req = "sample_chat_request sid"
  have "http_method ?req \<noteq> ''OPTIONS''" by (simp add: sample_chat_request_def)
  moreover have "sessionsFailure (supabaseClient ?env) = None" "tradesFailure (supabaseClient ?env) = None"
    "OPENAI_API_KEY ?env = Some ''sk''" "''sk'' \<noteq> []"
    by (simp_all add: sample_environment_def)
  ultimately have "chat_handler ?env ?req = completion ?env chat_error
       (chat_request ''sk''
          (chat_systemPrompt
             (Some (order_desc ts_created_at
                (filter (\<lambda>s. user_id s = userId (json_body ?req))
                   (trading_sessions_table (tables (supabaseClient ?env))))))
             (Some (order_desc created_at
                (List.map_filter
                   (join_session (trading_sessions_table (tables (supabaseClient ?env)))
                      (userId (json_body ?req)))
                   (trades_table (tables (supabaseClient ?env))))))
             (clock ?env))
          (message (json_body ?req)))
       ''Sorry, I could not process your request.''"
    by (rule chat_handler_completion)
  then have "sent (chat_handler ?env ?req) =
       [chat_request ''sk''
          (chat_systemPrompt
             (Some (order_desc ts_created_at
                (filter (\<lambda>s. user_id s = userId (json_body ?req))
                   (trading_sessions_table (tables (supabaseClient ?env))))))
             (Some (order_desc created_at
                (List.map_filter
                   (join_session (trading_sessions_table (tables (supabaseClient ?env)))
                      (userId (json_body ?req)))
                   (trades_table (tables (supabaseClient ?env))))))
             (clock ?env))
          (message (json_body ?req))]"
    by (simp only: sent_completion)
  moreover have "message (json_body ?req) = ''How am I doing?''"
    by (simp add: sample_chat_request_def)
  ultimately show ?thesis by (simp only:) blast
qed

text \<open>
  Both endpoints do send a request when the store answers and the credential is there.
\<close>

theorem summary_budget_smaller_witness:
  "map max_tokens (sent (summary_handler (sample_environment (Some ''sk'')) sample_summary_request))
     = [800] \<and>
   map max_tokens (sent (chat_handler (sample_environment (Some ''sk'')) (sample_chat_request None)))
     = [1000]"
proof -
  from sample_chat_sent[of None] obtain p where
    c: "sent (chat_handler (sample_environment (Some ''sk'')) (sample_chat_request None)) =
          [chat_request ''sk'' p ''How am I doing?'']" by blast
  from summary_budget_smaller[of "sample_environment (Some ''sk'')" sample_summary_request
      "sample_environment (Some ''sk'')" "sample_chat_request None"]
  show ?thesis unfolding sample_summary_sent c by simp
qed

lemma chat_sent_of_user:
  assumes "http_method req \<noteq> ''OPTIONS''"
    "sessionsFailure (supabaseClient env) = None" "tradesFailure (supabaseClient env) = None"
    "OPENAI_API_KEY env = Some key" "key \<noteq> []"
  shows "sent (chat_handler env req) =
     [chat_request key
        (chat_systemPrompt
           (Some (order_desc ts_created_at
              (filter (\<lambda>s. user_id s = userId (json_body req))
                 (trading_sessions_table (tables (supabaseClient env))))))
           (Some (order_desc created_at
              (List.map_filter
                 (join_session (trading_sessions_table (tables (supabaseClient env)))
                    (userId (json_body req)))
                 (trades_table (tables (supabaseClient env))))))
           (clock env))
        (message (json_body req))]"
  unfolding chat_handler_completion[OF assms] by (rule sent_completion)

text \<open>
  Claim C9. The chat endpoint gives the same response and sends the same request whatever
  the \<open>sessionId\<close> of the body is, present or not. When it sends a request, the prompt is
  built from all sessions of the user and from the trades of all sessions of the user.
\<close>

theorem session_id_ignored:
  "chat_handler env (req\<lparr>json_body := (json_body req)\<lparr>sessionId := sid\<rparr>\<rparr>) =
     chat_handler env req \<and>
   (http_method req \<noteq> ''OPTIONS'' \<and> sessionsFailure (supabaseClient env) = None \<and>
    tradesFailure (supabaseClient env) = None \<and> OPENAI_API_KEY env = Some key \<and> key \<noteq> [] \<longrightarrow>
    (\<exists>prompt ss ts.
       sent (chat_handler env (req\<lparr>json_body := (json_body req)\<lparr>sessionId := sid\<rparr>\<rparr>)) =
         [chat_request key prompt (message (json_body req))] \<and>
       interpolated prompt =
         [NatText (length ss), NatText (length ts),
          Fixed (Finite (totalProfit (Some ts))) 2, Fixed (winRate (Some ts)) 1,
          NatText (winningTrades (Some ts)), NatText (losingTrades (Some ts)),
          Json (JSessions (take 5 ss)), Json (JTradeRows (take 10 ts)),
          LocaleDate (clock env)] \<and>
       set ss = {s \<in> set (trading_sessions_table (tables (supabaseClient env))).
                   user_id s = userId (json_body req)} \<and>
       length ss = length (filter (\<lambda>s. user_id s = userId (json_body req))
                            (trading_sessions_table (tables (supabaseClient env)))) \<and>
       set (map Trade.truncate ts) =
         {t \<in> set (trades_table (tables (supabaseClient env))).
            owned_by (trading_sessions_table (tables (supabaseClient env)))
              (userId (json_body req)) t} \<and>
       length ts = length (filter (owned_by (trading_sessions_table (tables (supabaseClient env)))
                                     (userId (json_body req)))
                             (trades_table (tables (supabaseClient env))))))"
proof (intro conjI impI)
  show same: "chat_handler env (req\<lparr>json_body := (json_body req)\<lparr>sessionId := sid\<rparr>\<rparr>) =
     chat_handler env req"
    by (simp add: chat_handler_def)
  assume h: "http_method req \<noteq> ''OPTIONS'' \<and> sessionsFailure (supabaseClient env) = None \<and>
    tradesFailure (supabaseClient env) = None \<and> OPENAI_API_KEY env = Some key \<and> key \<noteq> []"
  let ?ss = "order_desc ts_created_at
              (filter (\<lambda>s. user_id s = userId (json_body req))
                 (trading_sessions_table (tables (supabaseClient env))))"
  let ?ts = "order_desc created_at
              (List.map_filter
                 (join_session (trading_sessions_table (tables (supabaseClient env)))
                    (userId (json_body req)))
                 (trades_table (tables (supabaseClient env))))"
  let ?prompt = "chat_systemPrompt (Some ?ss) (Some ?ts) (clock env)"
  from h have "sent (chat_handler env req) = [chat_request key ?prompt (message (json_body req))]"
    by (intro chat_sent_of_user) simp_all
  then have 1: "sent (chat_handler env (req\<lparr>json_body := (json_body req)\<lparr>sessionId := sid\<rparr>\<rparr>)) =
         [chat_request key ?prompt (message (json_body req))]"
    unfolding same .
  have 2: "interpolated ?prompt =
         [NatText (length ?ss), NatText (length ?ts),
          Fixed (Finite (totalProfit (Some ?ts))) 2, Fixed (winRate (Some ?ts)) 1,
          NatText (winningTrades (Some ?ts)), NatText (losingTrades (Some ?ts)),
          Json (JSessions (take 5 ?ss)), Json (JTradeRows (take 10 ?ts)),
          LocaleDate (clock env)]"
    by (simp add: interpolated_chat)
  have 3: "set ?ss = {s \<in> set (trading_sessions_table (tables (supabaseClient env))).
                   user_id s = userId (json_body req)}"
    by (simp add: order_desc_set)
  have 4: "length ?ss = length (filter (\<lambda>s. user_id s = userId (json_body req))
                            (trading_sessions_table (tables (supabaseClient env))))"
    by (simp add: order_desc_length)
  have "set (map Trade.truncate ?ts) = set (map Trade.truncate (List.map_filter
                 (join_session (trading_sessions_table (tables (supabaseClient env)))
                    (userId (json_body req)))
                 (trades_table (tables (supabaseClient env)))))"
    by (simp add: order_desc_set)
  then have 5: "set (map Trade.truncate ?ts) =
         {t \<in> set (trades_table (tables (supabaseClient env))).
            owned_by (trading_sessions_table (tables (supabaseClient env)))
              (userId (json_body req)) t}"
    unfolding map_filter_join by simp
  have "length ?ts = length (map Trade.truncate (List.map_filter
                 (join_session (trading_sessions_table (tables (supabaseClient env)))
                    (userId (json_body req)))
                 (trades_table (tables (supabaseClient env)))))"
    by (simp add: order_desc_length)
  then have 6: "length ?ts = length (filter (owned_by (trading_sessions_table (tables (supabaseClient env)))
                                     (userId (json_body req)))
                             (trades_table (tables (supabaseClient env))))"
    unfolding map_filter_join .
  show "\<exists>prompt ss ts.
       sent (chat_handler env (req\<lparr>json_body := (json_body req)\<lparr>sessionId := sid\<rparr>\<rparr>)) =
         [chat_request key prompt (message (json_body req))] \<and>
       interpolated prompt =
         [NatText (length ss), NatText (length ts),
          Fixed (Finite (totalProfit (Some ts))) 2, Fixed (winRate (Some ts)) 1,
          NatText (winningTrades (Some ts)), NatText (losingTrades (Some ts)),
          Json (JSessions (take 5 ss)), Json (JTradeRows (take 10 ts)),
          LocaleDate (clock env)] \<and>
       set ss = {s \<in> set (trading_sessions_table (tables (supabaseClient env))).
                   user_id s = userId (json_body req)} \<and>
       length ss = length (filter (\<lambda>s. user_id s = userId (json_body req))
                            (trading_sessions_table (tables (supabaseClient env)))) \<and>
       set (map Trade.truncate ts) =
         {t \<in> set (trades_table (tables (supabaseClient env))).
            owned_by (trading_sessions_table (tables (supabaseClient env)))
              (userId (json_body req)) t} \<and>
       length ts = length (filter (owned_by (trading_sessions_table (tables (supabaseClient env)))
                                     (userId (json_body req)))
                             (trades_table (tables (supabaseClient env))))"
    by (rule exI[of _ ?prompt], rule exI[of _ ?ss], rule exI[of _ ?ts]) (intro conjI 1 2 3 4 5 6)
qed

lemma sample_counts:
  "length (filter (\<lambda>s. user_id s = ''u1'') (trading_sessions_table sample_store)) = 6"
  "length (filter (owned_by (trading_sessions_table sample_store) ''u1'') (trades_table sample_store)) = 11"
  by (simp_all add: sample_store_def sample_session_def sample_trade_def owned_by_def)

text \<open>
  A request that names session \<open>s1\<close> is answered like one that names no session, and
  its prompt counts the six sessions and eleven trades of the user.
\<close>

theorem session_id_ignored_witness:
  "chat_handler (sample_environment (Some ''sk'')) (sample_chat_request (Some ''s1'')) =
     chat_handler (sample_environment (Some ''sk'')) (sample_chat_request None) \<and>
   (\<exists>prompt. sent (chat_handler (sample_environment (Some ''sk'')) (sample_chat_request (Some ''s1''))) =
        [chat_request ''sk'' prompt ''How am I doing?''] \<and>
      take 2 (interpolated prompt) = [NatText 6, NatText 11])"
proof -
  let ?env = "sample_environment (Some ''sk'')" and ?req = "sample_chat_request None"
  have r: "?req\<lparr>json_body := (json_body ?req)\<lparr>sessionId := Some ''s1''\<rparr>\<rparr> =
      sample_chat_request (Some ''s1'')" by (simp add: sample_chat_request_def)
  have h: "http_method ?req \<noteq> ''OPTIONS'' \<and> sessionsFailure (supabaseClient ?env) = None \<and>
    tradesFailure (supabaseClient ?env) = None \<and> OPENAI_API_KEY ?env = Some ''sk'' \<and> ''sk'' \<noteq> []"
    by (simp add: sample_chat_request_def sample_environment_def)
  have e: "userId (json_body ?req) = ''u1''" "message (json_body ?req) = ''How am I doing?''"
    "tables (supabaseClient ?env) = sample_store"
    by (simp_all add: sample_chat_request_def sample_environment_def)
  note t = session_id_ignored[where env = ?env and req = ?req and sid = "Some ''s1''" and key = "''sk''",
      unfolded r e sample_counts]
  from t h obtain prompt ss ts where
    p: "sent (chat_handler ?env (sample_chat_request (Some ''s1''))) =
         [chat_request ''sk'' prompt ''How am I doing?'']"
    and i: "interpolated prompt =
         [NatText (length ss), NatText (length ts),
          Fixed (Finite (totalProfit (Some ts))) 2, Fixed (winRate (Some ts)) 1,
          NatText (winningTrades (Some ts)), NatText (losingTrades (Some ts)),
          Json (JSessions (take 5 ss)), Json (JTradeRows (take 10 ts)),
          LocaleDate (clock ?env)]"
    and l: "length ss = 6" "length ts = 11"
    by blast
  from i l have "take 2 (interpolated prompt) = [NatText 6, NatText 11]" by simp
  with p t show ?thesis by blast
qed

section \<open>A missing credential\<close>

text \<open>
  Claim C8 as stated fails: without the credential both endpoints answer with the generic
  \<open>error\<close> text and with \<open>details\<close>, the message of the thrown error, which says that
  it is the OpenAI API key that is not configured; a failure of the store gives a different
  body.
\<close>

theorem missing_key_counterexample:
  "response (chat_handler (sample_environment None) (sample_chat_request None)) =
     \<lparr>status = 500, error_field = Some ''Failed to process chat request'',
      details_field = Some [Lit ''OpenAI API key not configured''],
      message_field = None, usage_field = None\<rparr> \<and>
   response (summary_handler (sample_environment None) sample_summary_request) =
     \<lparr>status = 500, error_field = Some ''Failed to generate session summary'',
      details_field = Some [Lit ''OpenAI API key not configured''],
      message_field = None, usage_field = None\<rparr> \<and>
   sublist ''OpenAI API key'' ''OpenAI API key not configured'' \<and>
   response (chat_handler (store_fails (sample_environment None)) (sample_chat_request None)) \<noteq>
     response (chat_handler (sample_environment None) (sample_chat_request None))"
  by (simp add: chat_handler_def summary_handler_def sample_environment_def
      sample_chat_request_def sample_summary_request_def select_sessions_of_user_def
      select_trades_of_user_def select_single_session_def select_trades_of_session_def
      sample_store_def sample_session_def failure_def chat_error_def summary_error_def
      store_fails_def Let_def sublist_code)

text \<open>
  Claim C8, amended. Without the credential (the variable is unset or empty) both
  endpoints fail with status 500 and their fixed \<open>error\<close> text, and make no request to the
  completion backend. The body carries \<open>details\<close>; when the queries before the check of
  the credential succeed, it is the text \<open>OpenAI API key not configured\<close>. In the widget a
  turn whose call of the service is rejected shows the one fixed toast and adds no
  assistant message.
\<close>

theorem missing_key_fails_without_completion:
  assumes "OPENAI_API_KEY env = None \<or> OPENAI_API_KEY env = Some []"
    "http_method creq \<noteq> ''OPTIONS''" "http_method sreq \<noteq> ''OPTIONS''"
  shows
    "sent (chat_handler env creq) = [] \<and>
     status (response (chat_handler env creq)) = 500 \<and>
     error_field (response (chat_handler env creq)) = Some ''Failed to process chat request'' \<and>
     message_field (response (chat_handler env creq)) = None \<and>
     (sessionsFailure (supabaseClient env) = None \<and> tradesFailure (supabaseClient env) = None \<longrightarrow>
        details_field (response (chat_handler env creq)) =
          Some [Lit ''OpenAI API key not configured'']) \<and>
     sent (summary_handler env sreq) = [] \<and>
     status (response (summary_handler env sreq)) = 500 \<and>
     error_field (response (summary_handler env sreq)) =
       Some ''Failed to generate session summary'' \<and>
     message_field (response (summary_handler env sreq)) = None \<and>
     (error (select_single_session (supabaseClient env) (summary_sessionId (summary_body sreq))
               (summary_userId (summary_body sreq))) = None \<and>
      data (select_single_session (supabaseClient env) (summary_sessionId (summary_body sreq))
               (summary_userId (summary_body sreq))) \<noteq> None \<and>
      tradesFailure (supabaseClient env) = None \<longrightarrow>
        details_field (response (summary_handler env sreq)) =
          Some [Lit ''OpenAI API key not configured'']) \<and>
     (user co = Some uid \<and> \<not> isLoading st \<and> trim (inputMessage st) \<noteq> [] \<and>
      (sessionSwitchMatch (trim (inputMessage st)) = None \<or> onSessionSwitch props = None) \<and>
      sendChatMessage co (trim (inputMessage st)) uid (currentSessionId props) = Rejected \<longrightarrow>
        handleSendMessage props co st =
          (st\<lparr>messages := messages st @
                 [\<lparr>msg_id = now_submit co, role = User,
                   content = trim (inputMessage st), timestamp = now_submit co\<rparr>],
              inputMessage := [], isLoading := False\<rparr>,
           [CallSendChatMessage (trim (inputMessage st)) uid (currentSessionId props),
            ToastError ''Failed to get Sydney's response'', ConsoleError ''Chat error:'']))"
proof -
  have c: "sent (chat_handler env creq) = [] \<and>
     status (response (chat_handler env creq)) = 500 \<and>
     error_field (response (chat_handler env creq)) = Some ''Failed to process chat request'' \<and>
     message_field (response (chat_handler env creq)) = None \<and>
     (sessionsFailure (supabaseClient env) = None \<and> tradesFailure (supabaseClient env) = None \<longrightarrow>
        details_field (response (chat_handler env creq)) =
          Some [Lit ''OpenAI API key not configured''])"
    using assms(1,2)
    by (auto simp add: chat_handler_def failure_def chat_error_def Let_def
        select_sessions_of_user_def select_trades_of_user_def split: option.splits)
  have s: "sent (summary_handler env sreq) = [] \<and>
     status (response (summary_handler env sreq)) = 500 \<and>
     error_field (response (summary_handler env sreq)) =
       Some ''Failed to generate session summary'' \<and>
     message_field (response (summary_handler env sreq)) = None \<and>
     (error (select_single_session (supabaseClient env) (summary_sessionId (summary_body sreq))
               (summary_userId (summary_body sreq))) = None \<and>
      data (select_single_session (supabaseClient env) (summary_sessionId (summary_body sreq))
               (summary_userId (summary_body sreq))) \<noteq> None \<and>
      tradesFailure (supabaseClient env) = None \<longrightarrow>
        details_field (response (summary_handler env sreq)) =
          Some [Lit ''OpenAI API key not configured''])"
    using assms(1,3)
    by (auto simp add: summary_handler_def failure_def summary_error_def Let_def
        select_trades_of_session_def split: option.splits)
  have w: "user co = Some uid \<and> \<not> isLoading st \<and> trim (inputMessage st) \<noteq> [] \<and>
      (sessionSwitchMatch (trim (inputMessage st)) = None \<or> onSessionSwitch props = None) \<and>
      sendChatMessage co (trim (inputMessage st)) uid (currentSessionId props) = Rejected \<longrightarrow>
        handleSendMessage props co st =
          (st\<lparr>messages := messages st @
                 [\<lparr>msg_id = now_submit co, role = User,
                   content = trim (inputMessage st), timestamp = now_submit co\<rparr>],
              inputMessage := [], isLoading := False\<rparr>,
           [CallSendChatMessage (trim (inputMessage st)) uid (currentSessionId props),
            ToastError ''Failed to get Sydney's response'', ConsoleError ''Chat error:''])"
  proof
    assume h: "user co = Some uid \<and> \<not> isLoading st \<and> trim (inputMessage st) \<noteq> [] \<and>
      (sessionSwitchMatch (trim (inputMessage st)) = None \<or> onSessionSwitch props = None) \<and>
      sendChatMessage co (trim (inputMessage st)) uid (currentSessionId props) = Rejected"
    then have "handleSendMessage props co st =
     (case sendChatMessage co (trim (inputMessage st)) uid (currentSessionId props) of
        Rejected \<Rightarrow>
          (st\<lparr>messages := messages st @ [\<lparr>msg_id = now_submit co, role = User,
                               content = trim (inputMessage st), timestamp = now_submit co\<rparr>],
              inputMessage := [], isLoading := False\<rparr>,
           [CallSendChatMessage (trim (inputMessage st)) uid (currentSessionId props),
            ToastError toastText, ConsoleError ''Chat error:''])
      | Resolved aiResponse \<Rightarrow>
          (st\<lparr>messages := messages st @
                 [\<lparr>msg_id = now_submit co, role = User,
                               content = trim (inputMessage st), timestamp = now_submit co\<rparr>,
                  \<lparr>msg_id = now_reply co + 1, role = Assistant,
                    content = aiResponse, timestamp = now_reply co\<rparr>],
              inputMessage := [], isLoading := False\<rparr>,
           [CallSendChatMessage (trim (inputMessage st)) uid (currentSessionId props)]))"
      by (intro handle_general) simp_all
    with h show "handleSendMessage props co st =
          (st\<lparr>messages := messages st @
                 [\<lparr>msg_id = now_submit co, role = User,
                   content = trim (inputMessage st), timestamp = now_submit co\<rparr>],
              inputMessage := [], isLoading := False\<rparr>,
           [CallSendChatMessage (trim (inputMessage st)) uid (currentSessionId props),
            ToastError ''Failed to get Sydney's response'', ConsoleError ''Chat error:''])"
      by (simp add: toastText_def)
  qed
  from c s w show ?thesis by blast
qed

text \<open>
  The two endpoints on the sample store, without the credential.
\<close>

theorem missing_key_fails_without_completion_witness:
  "sent (chat_handler (sample_environment None) (sample_chat_request None)) = [] \<and>
   status (response (chat_handler (sample_environment None) (sample_chat_request None))) = 500 \<and>
   details_field (response (chat_handler (sample_environment None) (sample_chat_request None))) =
     Some [Lit ''OpenAI API key not configured''] \<and>
   sent (summary_handler (sample_environment None) sample_summary_request) = [] \<and>
   status (response (summary_handler (sample_environment None) sample_summary_request)) = 500 \<and>
   details_field (response (summary_handler (sample_environment None) sample_summary_request)) =
     Some [Lit ''OpenAI API key not configured''] \<and>
   snd (handleSendMessage (sample_props None)
          (sample_collaborators\<lparr>sendChatMessage := (\<lambda>m u s. Rejected)\<rparr>)
          (typed ''How am I doing?'')) =
     [CallSendChatMessage ''How am I doing?'' ''u1'' (Some ''s1''),
      ToastError ''Failed to get Sydney's response'', ConsoleError ''Chat error:'']"
proof -
  let ?env = "sample_environment None"
  have 1: "OPENAI_API_KEY ?env = None \<or> OPENAI_API_KEY ?env = Some []"
    by (simp add: sample_environment_def)
  have 2: "http_method (sample_chat_request None) \<noteq> ''OPTIONS''"
    "http_method sample_summary_request \<noteq> ''OPTIONS''"
    by (simp_all add: sample_chat_request_def sample_summary_request_def)
  have 3: "sessionsFailure (supabaseClient ?env) = None \<and> tradesFailure (supabaseClient ?env) = None"
    by (simp add: sample_environment_def)
  have 4: "error (select_single_session (supabaseClient ?env)
               (summary_sessionId (summary_body sample_summary_request))
               (summary_userId (summary_body sample_summary_request))) = None \<and>
      data (select_single_session (supabaseClient ?env)
               (summary_sessionId (summary_body sample_summary_request))
               (summary_userId (summary_body sample_summary_request))) \<noteq> None \<and>
      tradesFailure (supabaseClient ?env) = None"
    by (simp add: sample_summary_request_def sample_single_session) (simp add: sample_environment_def)
  let ?co = "sample_collaborators\<lparr>sendChatMessage := (\<lambda>m u s. Rejected)\<rparr>"
  have t: "trim (inputMessage (typed ''How am I doing?'')) = ''How am I doing?''"
    by (simp add: typed_def trim_def isWhiteSpace_def)
  have 5: "user ?co = Some ''u1'' \<and> \<not> isLoading (typed ''How am I doing?'') \<and>
      trim (inputMessage (typed ''How am I doing?'')) \<noteq> [] \<and>
      (sessionSwitchMatch (trim (inputMessage (typed ''How am I doing?''))) = None \<or>
         onSessionSwitch (sample_props None) = None) \<and>
      sendChatMessage ?co (trim (inputMessage (typed ''How am I doing?''))) ''u1''
        (currentSessionId (sample_props None)) = Rejected"
    unfolding t by (simp add: sample_collaborators_def sample_props_def typed_def)
  note m = missing_key_fails_without_completion[OF 1 2, where co = ?co and uid = "''u1''"
      and st = "typed ''How am I doing?''" and props = "sample_props None"]
  from m 5 have "handleSendMessage (sample_props None) ?co (typed ''How am I doing?'') =
      ((typed ''How am I doing?'')\<lparr>messages := messages (typed ''How am I doing?'') @
                 [\<lparr>msg_id = now_submit ?co, role = User,
                   content = trim (inputMessage (typed ''How am I doing?'')),
                   timestamp = now_submit ?co\<rparr>],
              inputMessage := [], isLoading := False\<rparr>,
           [CallSendChatMessage (trim (inputMessage (typed ''How am I doing?''))) ''u1''
              (currentSessionId (sample_props None)),
            ToastError ''Failed to get Sydney's response'', ConsoleError ''Chat error:''])"
    by blast
  then have 6: "snd (handleSendMessage (sample_props None) ?co (typed ''How am I doing?'')) =
     [CallSendChatMessage ''How am I doing?'' ''u1'' (Some ''s1''),
      ToastError ''Failed to get Sydney's response'', ConsoleError ''Chat error:'']"
    unfolding t by (simp add: sample_props_def)
  from m 3 4 6 show ?thesis by blast
qed

end
